theory Spec2Isabelle
  imports Main
begin

section \<open>The syntax tree the generator builds\<close>

text \<open>
  The generator (\<^verbatim>\<open>src/commands/generate.ts\<close>) builds TypeScript syntax-tree nodes with
  \<^verbatim>\<open>ts.factory\<close> and hands them to the printer. The datatypes below are the node kinds it
  creates, named after the factory functions; an argument that the generator always passes
  as \<^verbatim>\<open>undefined\<close> (modifiers, type parameters, initialisers) is left out.
  A JavaScript string is a list of characters, one \<^typ>\<open>char\<close> for each code unit; the
  model has the code units below 256.
\<close>

datatype keyword = StringKeyword | NumberKeyword | BooleanKeyword | UnknownKeyword

text \<open>
  Type nodes. In \<open>PropertySignature name q t\<close> the flag \<open>q\<close> says that the question token
  is present (the member is optional). In \<open>TypeReferenceNode name args\<close> the arguments are
  \<open>None\<close> where the generator passes \<^verbatim>\<open>undefined\<close>.
\<close>

datatype tsType =
    TypeLiteralNode "tsMember list"
  | KeywordTypeNode keyword
  | ArrayTypeNode tsType
  | TypeReferenceNode string "tsType list option"
  | UnionTypeNode "tsType list"
  | IntersectionTypeNode "tsType list"
  | LiteralTypeNode string
and tsMember =
    PropertySignature string bool tsType
  | MethodSignature string tsType

text \<open>
  Expressions and statements. The text of a template part is \<open>None\<close> when the generator
  reads it from an index outside the array of path segments (\<^verbatim>\<open>undefined\<close> in JavaScript).
\<close>

datatype templateLiteral = TemplateMiddle "string option" | TemplateTail "string option"

datatype binaryToken = EqualsToken | InstanceOfKeyword

datatype bindingName =
    BindingIdentifier string
  | ObjectBindingPattern "string list"
  | ArrayBindingPattern "string list"

datatype expr =
    Identifier string
  | StringLiteral string
  | PropertyAccessExpression expr string
  | CallExpression expr "expr list"
  | NewExpression expr "expr list"
  | ObjectLiteralExpression "objectMember list"
  | TemplateExpression "string option" "(expr \<times> templateLiteral) list"
  | BinaryExpression expr binaryToken expr
  | ArrowFunction "bindingName list" "stmt list"
and objectMember =
    PropertyAssignment expr expr
  | SpreadAssignment expr
and stmt =
    VariableStatement string expr
  | IfStatement expr stmt "stmt option"
  | Block "stmt list"
  | ExpressionStatement expr
  | ReturnStatement expr

section \<open>Path Template Builder\<close>

subsection \<open>The placeholder pattern\<close>

text \<open>
  Both \<^verbatim>\<open>extractParams\<close> and \<^verbatim>\<open>makeTemplateExpressionFromPath\<close> use the regular expression
  \<^verbatim>\<open>\{([^}]+)\}\<close>. \<open>matchParam s\<close> is one attempt to match it at the first character of
  \<open>s\<close>: an opening brace, then the greedy run of characters other than the closing brace,
  which must be non-empty and followed by a closing brace (no shorter run is followed by
  one). It returns the captured name and what follows the match.
\<close>

definition notClose :: "char \<Rightarrow> bool" where
  "notClose c = (c \<noteq> CHR ''}'')"

fun matchParam :: "string \<Rightarrow> (string \<times> string) option" where
  "matchParam [] = None"
| "matchParam (c # cs) =
     (if c = CHR ''{'' then
        (let name = takeWhile notClose cs; rest = dropWhile notClose cs
         in if name \<noteq> [] \<and> rest \<noteq> [] then Some (name, tl rest) else None)
      else None)"

lemma matchParam_shorter:
  "matchParam s = Some (name, rest) \<Longrightarrow> length rest < length s"
proof (cases s)
  case Nil
  assume "matchParam s = Some (name, rest)"
  with Nil show ?thesis by simp
next
  case (Cons c cs)
  assume m: "matchParam s = Some (name, rest)"
  have "length (dropWhile notClose cs) \<le> length cs"
    by (rule length_dropWhile_le)
  moreover from m Cons have "rest = tl (dropWhile notClose cs)"
    by (auto simp: Let_def split: if_splits)
  ultimately show ?thesis using Cons by simp
qed

subsection \<open>extractParams\<close>

text \<open>
  \<^verbatim>\<open>
  function extractParams(path: string): string[] {
    const paramRegex = /\{([^}]+)\}/g;
    let match: RegExpExecArray | null;
    const params: string[] = [];
    while ((match = paramRegex.exec(path)) !== null) {
      params.push(match[1]);
    }
    return params;
  }
  \<close>
  With the global flag, \<^verbatim>\<open>exec\<close> looks for the leftmost match at or after \<^verbatim>\<open>lastIndex\<close>
  and moves \<^verbatim>\<open>lastIndex\<close> behind it. The argument of the model is the part of the path
  from \<^verbatim>\<open>lastIndex\<close> on.
\<close>

function extractParams :: "string \<Rightarrow> string list" where
  "extractParams [] = []"
| "extractParams (c # cs) =
     (case matchParam (c # cs) of
        Some (name, rest) \<Rightarrow> name # extractParams rest
      | None \<Rightarrow> extractParams cs)"
  by pat_completeness auto
termination
  by (relation "measure length") (auto dest: matchParam_shorter simp del: matchParam.simps)

subsection \<open>Splitting the path\<close>

text \<open>
  \<^verbatim>\<open>path.split(/\{[^}]+\}/)\<close>: the split steps through the string, tries the pattern at each
  position, and on a match closes the current segment and continues behind the match. The
  pattern matches no empty string, so the empty path gives one empty segment. \<open>seg\<close> is the
  segment read so far.
\<close>

function splitPath :: "string \<Rightarrow> string \<Rightarrow> string list" where
  "splitPath seg [] = [seg]"
| "splitPath seg (c # cs) =
     (case matchParam (c # cs) of
        Some (name, rest) \<Rightarrow> seg # splitPath [] rest
      | None \<Rightarrow> splitPath (seg @ [c]) cs)"
  by pat_completeness auto
termination
  by (relation "measure (\<lambda>(seg, s). length s)")
    (auto dest: matchParam_shorter simp del: matchParam.simps)

subsection \<open>makeTemplateExpressionFromPath\<close>

text \<open>\<open>nth_opt xs i\<close> is the JavaScript read \<^verbatim>\<open>xs[i]\<close>: \<^verbatim>\<open>undefined\<close> outside the array.\<close>

definition nth_opt :: "'a list \<Rightarrow> nat \<Rightarrow> 'a option" where
  "nth_opt xs i = (if i < length xs then Some (xs ! i) else None)"

text \<open>
  \<^verbatim>\<open>
  function makeTemplateExpressionFromPath(path: string) {
    const params = extractParams(path);
    const pathSegments = path.split(/\{[^}]+\}/);
    if (params.length === 0) {
      return factory.createStringLiteral(path);
    }
    const templateHead = factory.createTemplateHead(pathSegments[0], pathSegments[0]);
    const spans: ts.TemplateSpan[] = [];
    params.forEach((param, index) => {
      const isLast = index === params.length - 1;
      const literalText = pathSegments[index + 1];
      const literal = isLast
        ? factory.createTemplateTail(literalText, literalText)
        : factory.createTemplateMiddle(literalText, literalText);
      const span = factory.createTemplateSpan(
        factory.createPropertyAccessExpression(
          factory.createIdentifier('params'), factory.createIdentifier(param)),
        literal);
      spans.push(span);
    });
    return factory.createTemplateExpression(templateHead, spans);
  }
  \<close>
\<close>

definition makeTemplateSpan :: "string list \<Rightarrow> string list \<Rightarrow> string \<times> nat \<Rightarrow> expr \<times> templateLiteral" where
  "makeTemplateSpan params pathSegments pi =
     (case pi of (param, index) \<Rightarrow>
        (let isLast = (index = length params - 1);
             literalText = nth_opt pathSegments (index + 1);
             literal = (if isLast then TemplateTail literalText else TemplateMiddle literalText)
         in (PropertyAccessExpression (Identifier ''params'') param, literal)))"

definition makeTemplateExpressionFromPath :: "string \<Rightarrow> expr" where
  "makeTemplateExpressionFromPath path =
     (let params = extractParams path;
          pathSegments = splitPath [] path
      in if length params = 0 then StringLiteral path
         else TemplateExpression (nth_opt pathSegments 0)
                (map (makeTemplateSpan params pathSegments) (zip params [0 ..< length params])))"

subsection \<open>Properties of the Path Template Builder\<close>

text \<open>
  \<open>assemblePath segments names\<close> writes a path from its literal segments and the names
  between them, each name in braces.
\<close>

fun assemblePath :: "string list \<Rightarrow> string list \<Rightarrow> string" where
  "assemblePath (s # ss) (n # ns) = s @ ''{'' @ n @ ''}'' @ assemblePath ss ns"
| "assemblePath ss [] = concat ss"
| "assemblePath [] ns = []"

lemma matchParam_shape:
  "matchParam s = Some (name, rest) \<Longrightarrow> s = ''{'' @ name @ ''}'' @ rest"
proof (cases s)
  case Nil
  assume "matchParam s = Some (name, rest)"
  with Nil show ?thesis by simp
next
  case (Cons c cs)
  assume m: "matchParam s = Some (name, rest)"
  from m Cons have c: "c = CHR ''{''" and n: "name = takeWhile notClose cs"
    and r: "rest = tl (dropWhile notClose cs)" and ne: "dropWhile notClose cs \<noteq> []"
    by (auto simp: Let_def split: if_splits)
  from ne have "\<not> notClose (hd (dropWhile notClose cs))" by (rule hd_dropWhile)
  then have "hd (dropWhile notClose cs) = CHR ''}''" by (simp add: notClose_def)
  with ne r have "dropWhile notClose cs = CHR ''}'' # rest" by (cases "dropWhile notClose cs") auto
  then have "cs = name @ CHR ''}'' # rest" using n takeWhile_dropWhile_id[of notClose cs] by simp
  with c Cons show ?thesis by simp
qed

lemma split_length: "length (splitPath seg s) = Suc (length (extractParams s))"
  by (induction seg s rule: splitPath.induct) (auto split: option.splits simp del: matchParam.simps)

lemma split_assemble: "assemblePath (splitPath seg s) (extractParams s) = seg @ s"
proof (induction seg s rule: splitPath.induct)
  case (1 seg)
  show ?case by simp
next
  case (2 seg c cs)
  show ?case
  proof (cases "matchParam (c # cs)")
    case None
    with 2 show ?thesis by (simp del: matchParam.simps)
  next
    case (Some a)
    obtain name rest where a: "a = (name, rest)" by (cases a)
    from Some a have "c # cs = ''{'' @ name @ ''}'' @ rest" by (auto dest: matchParam_shape simp del: matchParam.simps)
    with 2 Some a show ?thesis by (simp del: matchParam.simps)
  qed
qed

lemma matchParam_placeholder:
  assumes "n \<noteq> []" "CHR ''}'' \<notin> set n"
  shows "matchParam (''{'' @ n @ ''}'' @ r) = Some (n, r)"
proof -
  have "\<forall>x\<in>set n. notClose x" using assms by (auto simp: notClose_def)
  then have "takeWhile notClose (n @ CHR ''}'' # r) = n" "dropWhile notClose (n @ CHR ''}'' # r) = CHR ''}'' # r"
    by (simp_all add: takeWhile_append2 dropWhile_append2 notClose_def)
  then show ?thesis using assms by simp
qed

lemma extract_literal: "CHR ''{'' \<notin> set s \<Longrightarrow> extractParams (s @ t) = extractParams t"
  by (induction s) auto

lemma split_literal: "CHR ''{'' \<notin> set s \<Longrightarrow> splitPath seg (s @ t) = splitPath (seg @ s) t"
  by (induction s arbitrary: seg) auto

lemma wellformed_path:
  "length segs = Suc (length names) \<Longrightarrow> \<forall>s\<in>set segs. CHR ''{'' \<notin> set s \<Longrightarrow>
   \<forall>n\<in>set names. n \<noteq> [] \<and> CHR ''}'' \<notin> set n \<Longrightarrow>
   extractParams (assemblePath segs names) = names \<and> splitPath [] (assemblePath segs names) = segs"
proof (induction names arbitrary: segs)
  case Nil
  then obtain s where segs: "segs = [s]" by (cases segs) auto
  with Nil have "CHR ''{'' \<notin> set s" by simp
  then show ?case using segs extract_literal[of s "[]"] split_literal[of s "[]" "[]"] by simp
next
  case (Cons n ns)
  then obtain s ss where segs: "segs = s # ss" by (cases segs) auto
  from Cons segs have ih: "extractParams (assemblePath ss ns) = ns" "splitPath [] (assemblePath ss ns) = ss" by simp_all
  from Cons segs have n: "n \<noteq> []" "CHR ''}'' \<notin> set n" and s: "CHR ''{'' \<notin> set s" by simp_all
  have m: "matchParam (CHR ''{'' # n @ CHR ''}'' # assemblePath ss ns) = Some (n, assemblePath ss ns)"
    using matchParam_placeholder[OF n] by simp
  have "extractParams (s @ CHR ''{'' # n @ CHR ''}'' # assemblePath ss ns) = n # ns"
    using s ih m by (simp add: extract_literal del: matchParam.simps)
  moreover have "splitPath [] (s @ CHR ''{'' # n @ CHR ''}'' # assemblePath ss ns) = s # ss"
    using s ih m by (simp add: split_literal del: matchParam.simps)
  ultimately show ?case using segs by simp
qed

lemma template_spans:
  assumes "extractParams path \<noteq> []"
  shows "\<exists>spans. makeTemplateExpressionFromPath path = TemplateExpression (Some (hd (splitPath [] path))) spans
     \<and> length spans = length (extractParams path)
     \<and> (\<forall>i < length spans. spans ! i =
          (PropertyAccessExpression (Identifier ''params'') (extractParams path ! i),
           (if i = length spans - 1 then TemplateTail else TemplateMiddle) (Some (splitPath [] path ! (i + 1)))))"
proof -
  let ?ps = "extractParams path" and ?segs = "splitPath [] path"
  have len: "length ?segs = Suc (length ?ps)" by (rule split_length)
  then have hd: "nth_opt ?segs 0 = Some (hd ?segs)" by (cases ?segs) (simp_all add: nth_opt_def)
  let ?spans = "map (makeTemplateSpan ?ps ?segs) (zip ?ps [0 ..< length ?ps])"
  have "makeTemplateExpressionFromPath path = TemplateExpression (Some (hd ?segs)) ?spans"
    using assms hd by (simp add: makeTemplateExpressionFromPath_def Let_def)
  moreover have "length ?spans = length ?ps" by simp
  moreover have "\<forall>i < length ?spans. ?spans ! i =
          (PropertyAccessExpression (Identifier ''params'') (?ps ! i),
           (if i = length ?spans - 1 then TemplateTail else TemplateMiddle) (Some (?segs ! (i + 1))))"
    using len by (auto simp: makeTemplateSpan_def nth_opt_def Let_def)
  ultimately show ?thesis by blast
qed


text \<open>
  Claim C2. For every path, \<^verbatim>\<open>extractParams\<close> and the split of
  \<^verbatim>\<open>makeTemplateExpressionFromPath\<close> agree: with N extracted names there are N + 1 literal
  segments, and writing the segments with the names in braces between them gives the path
  back. With no name the template is the string literal of the path; otherwise it is a
  template expression whose head is the first segment and whose i-th span reads
  \<^verbatim>\<open>params.<name i>\<close> and carries segment i + 1 (the last one as the tail), every
  segment present, the empty ones too. And N is the number of placeholders: for a path
  written from N + 1 segments without an opening brace and N non-empty names without a
  closing brace, exactly these names are extracted, in order and with their duplicates, and
  exactly these segments are the split.
\<close>

theorem path_template_builder:
  "length (splitPath [] path) = Suc (length (extractParams path))
   \<and> assemblePath (splitPath [] path) (extractParams path) = path
   \<and> (extractParams path = [] \<longrightarrow> makeTemplateExpressionFromPath path = StringLiteral path)
   \<and> (extractParams path \<noteq> [] \<longrightarrow>
        (\<exists>spans. makeTemplateExpressionFromPath path =
                   TemplateExpression (Some (hd (splitPath [] path))) spans
           \<and> length spans = length (extractParams path)
           \<and> (\<forall>i < length spans. spans ! i =
                 (PropertyAccessExpression (Identifier ''params'') (extractParams path ! i),
                  (if i = length spans - 1 then TemplateTail else TemplateMiddle)
                    (Some (splitPath [] path ! (i + 1)))))))
   \<and> (length segs = Suc (length names)
        \<and> (\<forall>s\<in>set segs. CHR ''{'' \<notin> set s)
        \<and> (\<forall>n\<in>set names. n \<noteq> [] \<and> CHR ''}'' \<notin> set n)
        \<longrightarrow> extractParams (assemblePath segs names) = names
            \<and> splitPath [] (assemblePath segs names) = segs)"
proof -
  have "extractParams path = [] \<longrightarrow> makeTemplateExpressionFromPath path = StringLiteral path"
    by (simp add: makeTemplateExpressionFromPath_def)
  moreover have "assemblePath (splitPath [] path) (extractParams path) = path"
    using split_assemble[of "[]" path] by simp
  ultimately show ?thesis
    using split_length[of "[]" path] template_spans[of path] wellformed_path[of segs names]
    by blast
qed

text \<open>
  The witness: the path \<^verbatim>\<open>/a/{x}{y}/b/{x}\<close>, with adjacent placeholders, a placeholder
  at the end and a repeated name; and a path without placeholders.
\<close>

theorem path_template_builder_witness:
  "extractParams (assemblePath [''/a/'', [], ''/b/'', []] [''x'', ''y'', ''x'']) = [''x'', ''y'', ''x'']
   \<and> splitPath [] (assemblePath [''/a/'', [], ''/b/'', []] [''x'', ''y'', ''x'']) = [''/a/'', [], ''/b/'', []]
   \<and> extractParams ''/a/{x}{y}/b/{x}'' \<noteq> []
   \<and> (\<exists>spans. makeTemplateExpressionFromPath ''/a/{x}{y}/b/{x}'' = TemplateExpression (Some ''/a/'') spans
         \<and> length spans = 3
         \<and> spans ! 1 = (PropertyAccessExpression (Identifier ''params'') ''y'', TemplateMiddle (Some ''/b/''))
         \<and> spans ! 2 = (PropertyAccessExpression (Identifier ''params'') ''x'', TemplateTail (Some [])))
   \<and> extractParams ''/plain'' = []
   \<and> makeTemplateExpressionFromPath ''/plain'' = StringLiteral ''/plain''"
proof -
  have e: "extractParams ''/a/{x}{y}/b/{x}'' = [''x'', ''y'', ''x'']"
    by (simp add: notClose_def)
  have s: "splitPath [] ''/a/{x}{y}/b/{x}'' = [''/a/'', [], ''/b/'', []]"
    by (simp add: notClose_def)
  have p: "extractParams ''/plain'' = []" by simp
  have w: "length [''/a/'', [], ''/b/'', []] = Suc (length [''x'', ''y'', ''x''])
        \<and> (\<forall>s\<in>set [''/a/'', [], ''/b/'', []]. CHR ''{'' \<notin> set s)
        \<and> (\<forall>n\<in>set [''x'', ''y'', ''x'']. n \<noteq> [] \<and> CHR ''}'' \<notin> set n)"
    by simp
  note t = path_template_builder[of "''/a/{x}{y}/b/{x}''" "[''/a/'', [], ''/b/'', []]" "[''x'', ''y'', ''x'']"]
  from t w have a: "extractParams (assemblePath [''/a/'', [], ''/b/'', []] [''x'', ''y'', ''x'']) = [''x'', ''y'', ''x'']"
    and b: "splitPath [] (assemblePath [''/a/'', [], ''/b/'', []] [''x'', ''y'', ''x'']) = [''/a/'', [], ''/b/'', []]"
    by blast+
  from t e s obtain spans where sp:
    "makeTemplateExpressionFromPath ''/a/{x}{y}/b/{x}'' = TemplateExpression (Some ''/a/'') spans"
    "length spans = 3"
    "\<forall>i < length spans. spans ! i =
       (PropertyAccessExpression (Identifier ''params'') ([''x'', ''y'', ''x''] ! i),
        (if i = length spans - 1 then TemplateTail else TemplateMiddle)
          (Some ([''/a/'', [], ''/b/'', []] ! (i + 1))))"
    by (auto simp del: extractParams.simps splitPath.simps assemblePath.simps)
  from sp(2,3) have "spans ! 1 = (PropertyAccessExpression (Identifier ''params'') ''y'', TemplateMiddle (Some ''/b/''))"
    by simp
  moreover from sp(2) sp(3)[rule_format, of 2]
  have "spans ! 2 = (PropertyAccessExpression (Identifier ''params'') ''x'', TemplateTail (Some []))"
    by simp
  ultimately have c: "\<exists>spans. makeTemplateExpressionFromPath ''/a/{x}{y}/b/{x}'' = TemplateExpression (Some ''/a/'') spans
         \<and> length spans = 3
         \<and> spans ! 1 = (PropertyAccessExpression (Identifier ''params'') ''y'', TemplateMiddle (Some ''/b/''))
         \<and> spans ! 2 = (PropertyAccessExpression (Identifier ''params'') ''x'', TemplateTail (Some []))"
    using sp(1,2) by blast
  from path_template_builder[of "''/plain''" "[]" "[]"] p
  have d: "makeTemplateExpressionFromPath ''/plain'' = StringLiteral ''/plain''" by blast
  from a b c d e p show ?thesis by simp
qed

section \<open>JavaScript values\<close>

text \<open>
  The resolved document is a JavaScript value that the generator inspects dynamically
  (its schemas have the type \<^verbatim>\<open>unknown\<close>). \<open>JObj\<close> holds the own enumerable properties of an
  object in the order in which JavaScript enumerates them; \<open>JUndefined\<close> is what reading an
  absent property gives. The generator never looks at the value of a number.
\<close>

datatype jsValue =
    JUndefined
  | JNull
  | JBool bool
  | JNum int
  | JStr string
  | JArr "jsValue list"
  | JObj "(string \<times> jsValue) list"

text \<open>
  What the generator throws: \<open>Error msg\<close> for its own \<^verbatim>\<open>throw new Error(msg)\<close>, \<open>TypeError\<close>
  for the type errors of the language and the platform, whose messages vary.
\<close>

datatype error = Error string | TypeError

subsection \<open>Property keys\<close>

text \<open>\<open>decimal n\<close> is the key of the array index \<open>n\<close>: its decimal numeral.\<close>

definition digitChar :: "nat \<Rightarrow> char" where
  "digitChar n = ''0123456789'' ! n"

function decimal :: "nat \<Rightarrow> string" where
  "decimal n = (if n < 10 then [digitChar n] else decimal (n div 10) @ [digitChar (n mod 10)])"
  by pat_completeness auto
termination
  by (relation "measure id") auto

declare decimal.simps [simp del]

text \<open>
  The indexed properties of an array or of a string, and the own properties of a value:
  \<open>enumProps\<close> are the enumerable ones (\<^verbatim>\<open>Object.keys\<close>, \<^verbatim>\<open>Object.entries\<close>, \<^verbatim>\<open>Object.values\<close>, the
  spread), \<open>ownProps\<close> adds the \<^verbatim>\<open>length\<close> of an array or string
  (\<^verbatim>\<open>Object.getOwnPropertyNames\<close>). Numbers and booleans have none.
\<close>

definition indexed :: "'a list \<Rightarrow> (string \<times> 'a) list" where
  "indexed xs = zip (map decimal [0 ..< length xs]) xs"

fun enumProps :: "jsValue \<Rightarrow> (string \<times> jsValue) list" where
  "enumProps (JObj ps) = ps"
| "enumProps (JArr xs) = indexed xs"
| "enumProps (JStr s) = indexed (map (\<lambda>c. JStr [c]) s)"
| "enumProps v = []"

fun ownProps :: "jsValue \<Rightarrow> (string \<times> jsValue) list" where
  "ownProps (JObj ps) = ps"
| "ownProps (JArr xs) = indexed xs @ [(''length'', JNum (int (length xs)))]"
| "ownProps (JStr s) = indexed (map (\<lambda>c. JStr [c]) s) @ [(''length'', JNum (int (length s)))]"
| "ownProps v = []"

text \<open>The size of a value, for the termination of the Type Mapper.\<close>

fun jsize :: "jsValue \<Rightarrow> nat" where
  "jsize (JArr xs) = 3 + sum_list (map (\<lambda>x. Suc (jsize x)) xs)"
| "jsize (JObj ps) = 1 + sum_list (map (\<lambda>p. Suc (jsize (snd p))) ps)"
| "jsize (JStr s) = (if length s \<le> 1 then 1 else 2 * length s)"
| "jsize v = 1"


text \<open>
  An object enumerates its array-index keys first, in ascending order, and then its other
  keys in the order of their creation. \<open>arrayIndex k\<close> is the index a key stands for: the
  key is the decimal numeral of a number below \<open>2^32 - 1\<close>. \<open>js_set k v ps\<close> defines the
  property \<open>k\<close> on the object with the properties \<open>ps\<close>: an existing property keeps its
  place and takes the new value, a new one goes where the enumeration order puts it.
\<close>

definition isDigit :: "char \<Rightarrow> bool" where
  "isDigit c = (48 \<le> (of_char c :: nat) \<and> (of_char c :: nat) \<le> 57)"

definition digitsValue :: "string \<Rightarrow> nat" where
  "digitsValue k = foldl (\<lambda>n c. 10 * n + (of_char c - 48)) 0 k"

definition arrayIndex :: "string \<Rightarrow> nat option" where
  "arrayIndex k =
     (if list_all isDigit k \<and> decimal (digitsValue k) = k \<and> digitsValue k < 4294967295
      then Some (digitsValue k) else None)"

fun insertIndex :: "nat \<Rightarrow> string \<Rightarrow> 'a \<Rightarrow> (string \<times> 'a) list \<Rightarrow> (string \<times> 'a) list" where
  "insertIndex n k v [] = [(k, v)]"
| "insertIndex n k v (p # ps) =
     (case arrayIndex (fst p) of
        Some m \<Rightarrow> (if m < n then p # insertIndex n k v ps else (k, v) # p # ps)
      | None \<Rightarrow> (k, v) # p # ps)"

fun updateFirst :: "string \<Rightarrow> 'a \<Rightarrow> (string \<times> 'a) list \<Rightarrow> (string \<times> 'a) list" where
  "updateFirst k v [] = []"
| "updateFirst k v (p # ps) = (if fst p = k then (k, v) # ps else p # updateFirst k v ps)"

definition js_set :: "string \<Rightarrow> 'a \<Rightarrow> (string \<times> 'a) list \<Rightarrow> (string \<times> 'a) list" where
  "js_set k v ps =
     (if k \<in> fst ` set ps then updateFirst k v ps
      else (case arrayIndex k of
              Some n \<Rightarrow> insertIndex n k v ps
            | None \<Rightarrow> ps @ [(k, v)]))"

text \<open>\<^verbatim>\<open>Object.fromEntries\<close>: the entries are defined one after the other on an empty object.\<close>

definition fromEntries :: "(string \<times> 'a) list \<Rightarrow> (string \<times> 'a) list" where
  "fromEntries es = foldl (\<lambda>obj e. js_set (fst e) (snd e) obj) [] es"

text \<open>
  \<^verbatim>\<open>Object.entries(v)\<close> throws a TypeError on \<^verbatim>\<open>null\<close> and \<^verbatim>\<open>undefined\<close>.
  \<open>allEntries parts\<close> is \<^verbatim>\<open>parts.map((schema) => Object.entries(schema)).flat()\<close>.
\<close>

definition objectEntries :: "jsValue \<Rightarrow> error + (string \<times> jsValue) list" where
  "objectEntries v = (if v = JNull \<or> v = JUndefined then Inl TypeError else Inr (enumProps v))"

fun allEntries :: "jsValue list \<Rightarrow> error + (string \<times> jsValue) list" where
  "allEntries [] = Inr []"
| "allEntries (p # ps) =
     (case objectEntries p of
        Inl e \<Rightarrow> Inl e
      | Inr es \<Rightarrow> (case allEntries ps of Inl e \<Rightarrow> Inl e | Inr rest \<Rightarrow> Inr (es @ rest)))"

text \<open>
  \<open>isObject v\<close> is \<^verbatim>\<open>typeof v === 'object' && v !== null\<close>, \<open>isArray\<close> is \<^verbatim>\<open>Array.isArray\<close>,
  \<open>hasProp v k\<close> is \<^verbatim>\<open>k in v\<close> and \<open>getProp v k\<close> is the read \<^verbatim>\<open>v[k]\<close>, for a value \<open>v\<close>
  that is not \<^verbatim>\<open>null\<close> or \<^verbatim>\<open>undefined\<close> and a key that the prototypes do not define (none of
  the keys the generator asks for is one).
\<close>

definition isObject :: "jsValue \<Rightarrow> bool" where
  "isObject v = (case v of JArr xs \<Rightarrow> True | JObj ps \<Rightarrow> True | _ \<Rightarrow> False)"

definition isArray :: "jsValue \<Rightarrow> bool" where
  "isArray v = (case v of JArr xs \<Rightarrow> True | _ \<Rightarrow> False)"

definition elements :: "jsValue \<Rightarrow> jsValue list" where
  "elements v = (case v of JArr xs \<Rightarrow> xs | _ \<Rightarrow> [])"

definition hasProp :: "jsValue \<Rightarrow> string \<Rightarrow> bool" where
  "hasProp v k = (k \<in> fst ` set (ownProps v))"

definition getProp :: "jsValue \<Rightarrow> string \<Rightarrow> jsValue" where
  "getProp v k = (case map_of (ownProps v) k of Some x \<Rightarrow> x | None \<Rightarrow> JUndefined)"

section \<open>Type Mapper\<close>

text \<open>
  \<^verbatim>\<open>
  const questionToken =
    'required' in schema &&
    Array.isArray(schema.required) &&
    schema.required?.includes(propertyName)
      ? undefined
      : factory.createToken(ts.SyntaxKind.QuestionToken);
  \<close>
\<close>

definition questionToken :: "jsValue \<Rightarrow> string \<Rightarrow> bool" where
  "questionToken schema propertyName =
     (\<not> (hasProp schema ''required'' \<and> isArray (getProp schema ''required'')
         \<and> JStr propertyName \<in> set (elements (getProp schema ''required''))))"

text \<open>
  The last two statements of \<^verbatim>\<open>makeTypeFromSchema\<close>: the warning
  \<^verbatim>\<open>console.warn('Unknown schema', schema, 'using unknown as safe fallback')\<close> and the
  keyword \<^verbatim>\<open>unknown\<close>. The mapper returns its type together with the schemas it warned
  about, in the order of the warnings.
\<close>

definition unknownFallback :: "jsValue \<Rightarrow> error + tsType \<times> jsValue list" where
  "unknownFallback schema = Inr (KeywordTypeNode UnknownKeyword, [schema])"

text \<open>\<^verbatim>\<open>Record<string | number, unknown>\<close>, the type of an object schema without properties.\<close>

definition recordType :: tsType where
  "recordType = TypeReferenceNode ''Record''
     (Some [UnionTypeNode [KeywordTypeNode StringKeyword, KeywordTypeNode NumberKeyword],
            KeywordTypeNode UnknownKeyword])"

subsection \<open>Sizes\<close>

text \<open>
  The mapper calls itself on the schema of a property, on the schema of the items and on
  the object it merges from the parts of an \<^verbatim>\<open>allOf\<close>. Each of them is smaller than the
  schema.
\<close>

definition jsum :: "(string \<times> jsValue) list \<Rightarrow> nat" where
  "jsum ps = sum_list (map (\<lambda>p. Suc (jsize (snd p))) ps)"

lemma jsize_pos: "0 < jsize v"
  by (cases v) auto

lemma jsum_append: "jsum (xs @ ys) = jsum xs + jsum ys"
  by (simp add: jsum_def)

lemma jsum_mem: "(k, x) \<in> set ps \<Longrightarrow> Suc (jsize x) \<le> jsum ps"
  unfolding jsum_def by (induction ps) auto

lemma jsum_indexed: "jsum (indexed xs) = sum_list (map (\<lambda>x. Suc (jsize x)) xs)"
proof -
  have "map (\<lambda>p. Suc (jsize (snd p))) (indexed xs) = map (\<lambda>x. Suc (jsize x)) (map snd (indexed xs))"
    by (simp add: comp_def)
  also have "map snd (indexed xs) = xs" by (simp add: indexed_def)
  finally show ?thesis by (simp add: jsum_def)
qed

lemma jsum_ownProps: "isObject v \<Longrightarrow> jsum (ownProps v) < jsize v"
  by (cases v) (auto simp: isObject_def jsum_append jsum_indexed, simp_all add: jsum_def)

lemma jsize_member: "isObject v \<Longrightarrow> (k, x) \<in> set (ownProps v) \<Longrightarrow> Suc (jsize x) < jsize v"
  using jsum_mem[of k x "ownProps v"] jsum_ownProps[of v] by simp

lemma getProp_member: "hasProp v k \<Longrightarrow> (k, getProp v k) \<in> set (ownProps v)"
  unfolding hasProp_def getProp_def
  by (auto split: option.splits simp: map_of_eq_None_iff dest: map_of_SomeD)

lemma jsize_hasProp: "isObject v \<Longrightarrow> hasProp v k \<Longrightarrow> Suc (jsize (getProp v k)) < jsize v"
  by (rule jsize_member[OF _ getProp_member])

lemma jsum_strings: "jsum (indexed (map (\<lambda>c. JStr [c]) s)) = 2 * length s"
  by (simp add: jsum_indexed) (induction s, auto)

lemma jsize_getProp: "jsize (getProp v k) \<le> jsize v"
proof (cases "map_of (ownProps v) k")
  case None
  then show ?thesis using jsize_pos[of v] by (simp add: getProp_def)
next
  case (Some x)
  then have m: "(k, x) \<in> set (ownProps v)" by (rule map_of_SomeD)
  have "jsize x \<le> jsize v"
  proof (cases v)
    case (JStr s)
    with m have "(k, x) \<in> set (indexed (map (\<lambda>c. JStr [c]) s)) \<or> x = JNum (int (length s))" by auto
    then have "jsize x = 1" by (auto simp: indexed_def dest!: set_zip_rightD)
    then show ?thesis using jsize_pos[of v] by simp
  next
    case (JArr xs)
    then show ?thesis using jsize_member[OF _ m] by (simp add: isObject_def)
  next
    case (JObj ps)
    then show ?thesis using jsize_member[OF _ m] by (simp add: isObject_def)
  qed (use m in auto)
  with Some show ?thesis by (simp add: getProp_def)
qed

lemma jsum_enumProps: "jsum (enumProps v) \<le> Suc (jsize v)"
proof (cases v)
  case (JStr s)
  then show ?thesis using jsum_strings[of s] by simp
next
  case (JArr xs)
  then show ?thesis by (simp add: jsum_indexed)
next
  case (JObj ps)
  then show ?thesis by (simp add: jsum_def)
qed (simp_all add: jsum_def)

lemma jsum_insertIndex: "jsum (insertIndex n k v ps) = jsum ps + Suc (jsize v)"
  by (induction ps) (auto simp: jsum_def split: option.splits)

lemma jsum_update: "jsum (updateFirst k v ps) \<le> jsum ps + Suc (jsize v)"
  by (induction ps) (auto simp: jsum_def)

lemma jsum_js_set: "jsum (js_set k v ps) \<le> jsum ps + Suc (jsize v)"
  using jsum_update[of k v ps]
  by (auto simp: js_set_def jsum_insertIndex jsum_append split: option.splits, simp add: jsum_def)

lemma jsum_foldl_set:
  "jsum (foldl (\<lambda>obj e. js_set (fst e) (snd e) obj) acc es) \<le> jsum acc + jsum es"
proof (induction es arbitrary: acc)
  case Nil
  show ?case by (simp add: jsum_def)
next
  case (Cons e es)
  have "jsum (foldl (\<lambda>obj e. js_set (fst e) (snd e) obj) (js_set (fst e) (snd e) acc) es)
        \<le> jsum (js_set (fst e) (snd e) acc) + jsum es" by (rule Cons.IH)
  also have "\<dots> \<le> jsum acc + Suc (jsize (snd e)) + jsum es"
    using jsum_js_set[of "fst e" "snd e" acc] by simp
  finally show ?case by (simp add: jsum_def)
qed

lemma jsum_fromEntries: "jsum (fromEntries es) \<le> jsum es"
  using jsum_foldl_set[of "[]" es] by (simp add: fromEntries_def jsum_def)

lemma jsum_allEntries:
  "allEntries parts = Inr es \<Longrightarrow> jsum es \<le> length parts + sum_list (map jsize parts)"
proof (induction parts arbitrary: es)
  case Nil
  then show ?case by (simp add: jsum_def)
next
  case (Cons p ps)
  from Cons.prems obtain e1 e2 where e: "objectEntries p = Inr e1" "allEntries ps = Inr e2" "es = e1 @ e2"
    by (auto split: sum.splits)
  from e(1) have "jsum e1 \<le> Suc (jsize p)"
    using jsum_enumProps[of p] by (auto simp: objectEntries_def split: if_splits)
  with Cons.IH[OF e(2)] e(3) show ?case by (simp add: jsum_append)
qed


lemma jsize_merged:
  assumes "isObject schema" "hasProp schema ''allOf''" "isArray (getProp schema ''allOf'')"
    and "allEntries (elements (getProp schema ''allOf'')) = Inr es"
  shows "jsize (JObj (fromEntries es)) < jsize schema"
proof -
  from assms(3) obtain parts where p: "getProp schema ''allOf'' = JArr parts"
    by (cases "getProp schema ''allOf''") (auto simp: isArray_def)
  have "jsize (JObj (fromEntries es)) = Suc (jsum (fromEntries es))" by (simp add: jsum_def)
  also have "\<dots> \<le> Suc (jsum es)" using jsum_fromEntries[of es] by simp
  also have "\<dots> \<le> Suc (length parts + sum_list (map jsize parts))"
    using jsum_allEntries[of parts es] assms(4) p by (simp add: elements_def)
  also have "length parts + sum_list (map jsize parts) = sum_list (map (\<lambda>x. Suc (jsize x)) parts)"
    by (induction parts) auto
  finally have "jsize (JObj (fromEntries es)) \<le> Suc (sum_list (map (\<lambda>x. Suc (jsize x)) parts))" .
  moreover have "Suc (jsize (JArr parts)) < jsize schema"
    using jsize_hasProp[OF assms(1,2)] p by simp
  ultimately show ?thesis by simp
qed

subsection \<open>makeTypeFromSchema\<close>

text \<open>
  \<^verbatim>\<open>
  function makeTypeFromSchema(schema: unknown) {
    if (typeof schema === 'object' && schema !== null) {
      if ('properties' in schema && typeof schema.properties === 'object'
          && schema.properties !== null) {
        const properties = schema.properties;
        return factory.createTypeLiteralNode(
          Object.getOwnPropertyNames(properties).map((propertyName) => {
            const questionToken = ...;
            return factory.createPropertySignature(undefined,
              factory.createIdentifier(propertyName), questionToken,
              makeTypeFromSchema(properties[propertyName]));
          }));
      } else if ('type' in schema) {
        if (schema.type === 'object') {
          return (Record<string | number, unknown>);
        } else if (schema.type === 'array') {
          if ('items' in schema && typeof schema.items === 'object' && schema.items !== null) {
            return factory.createArrayTypeNode(makeTypeFromSchema(schema.items));
          } else {
            return factory.createArrayTypeNode((unknown));
          }
        } else if (schema.type === 'integer' || schema.type === 'number') {
          return (number);
        } else if (schema.type === 'string') {
          return (string);
        } else if (schema.type === 'boolean') {
          return (boolean);
        }
      } else if ('allOf' in schema && Array.isArray(schema.allOf)) {
        return makeTypeFromSchema(
          Object.fromEntries(schema.allOf.map((schema) => Object.entries(schema)).flat()));
      }
    }
    console.warn('Unknown schema', schema, 'using unknown as safe fallback');
    return factory.createKeywordTypeNode(ts.SyntaxKind.UnknownKeyword);
  }
  \<close>
  \<open>makeMembers schema properties names\<close> is the \<^verbatim>\<open>map\<close> over the property names. An
  exception of a call leaves the whole mapper: \<open>Inl\<close>.
\<close>

function makeTypeFromSchema :: "jsValue \<Rightarrow> error + tsType \<times> jsValue list"
  and makeMembers :: "jsValue \<Rightarrow> jsValue \<Rightarrow> string list \<Rightarrow> error + tsMember list \<times> jsValue list"
where
  "makeTypeFromSchema schema =
     (if isObject schema then
        (if hasProp schema ''properties'' \<and> isObject (getProp schema ''properties'') then
           (case makeMembers schema (getProp schema ''properties'')
                   (map fst (ownProps (getProp schema ''properties''))) of
              Inl e \<Rightarrow> Inl e
            | Inr (members, ds) \<Rightarrow> Inr (TypeLiteralNode members, ds))
         else if hasProp schema ''type'' then
           (if getProp schema ''type'' = JStr ''object'' then Inr (recordType, [])
            else if getProp schema ''type'' = JStr ''array'' then
              (if hasProp schema ''items'' \<and> isObject (getProp schema ''items'') then
                 (case makeTypeFromSchema (getProp schema ''items'') of
                    Inl e \<Rightarrow> Inl e
                  | Inr (t, ds) \<Rightarrow> Inr (ArrayTypeNode t, ds))
               else Inr (ArrayTypeNode (KeywordTypeNode UnknownKeyword), []))
            else if getProp schema ''type'' = JStr ''integer'' \<or> getProp schema ''type'' = JStr ''number''
              then Inr (KeywordTypeNode NumberKeyword, [])
            else if getProp schema ''type'' = JStr ''string'' then Inr (KeywordTypeNode StringKeyword, [])
            else if getProp schema ''type'' = JStr ''boolean'' then Inr (KeywordTypeNode BooleanKeyword, [])
            else unknownFallback schema)
         else if hasProp schema ''allOf'' \<and> isArray (getProp schema ''allOf'') then
           (case allEntries (elements (getProp schema ''allOf'')) of
              Inl e \<Rightarrow> Inl e
            | Inr es \<Rightarrow> makeTypeFromSchema (JObj (fromEntries es)))
         else unknownFallback schema)
      else unknownFallback schema)"
| "makeMembers schema properties [] = Inr ([], [])"
| "makeMembers schema properties (propertyName # names) =
     (case makeTypeFromSchema (getProp properties propertyName) of
        Inl e \<Rightarrow> Inl e
      | Inr (t, ds) \<Rightarrow>
          (case makeMembers schema properties names of
             Inl e \<Rightarrow> Inl e
           | Inr (members, ds') \<Rightarrow>
               Inr (PropertySignature propertyName (questionToken schema propertyName) t # members,
                    ds @ ds')))"
  by pat_completeness auto
termination
  apply (relation "inv_image (less_than <*lex*> less_than)
    (\<lambda>x. case x of Inl schema \<Rightarrow> (jsize schema, 0 :: nat)
                  | Inr (schema, properties, names) \<Rightarrow> (Suc (jsize properties), Suc (length names)))")
  subgoal by (intro wf_inv_image wf_lex_prod wf_less_than)
  subgoal for schema using jsize_hasProp[of schema "''properties''"] by simp
  subgoal for schema using jsize_hasProp[of schema "''items''"] by simp
  subgoal for schema es using jsize_merged[of schema es] by simp
  subgoal for schema properties propertyName names using jsize_getProp[of properties propertyName] by simp
  subgoal by simp
  done

declare makeTypeFromSchema.simps [simp del]

subsection \<open>Properties of the Type Mapper\<close>

lemma makeMembers_all:
  "\<forall>n\<in>set names. makeTypeFromSchema (getProp properties n) = Inr (ty n, dg n) \<Longrightarrow>
   makeMembers schema properties names =
     Inr (map (\<lambda>n. PropertySignature n (questionToken schema n) (ty n)) names, concat (map dg names))"
  by (induction names) simp_all

lemma required_iff:
  "(hasProp schema ''required'' \<and> isArray (getProp schema ''required'')
      \<and> JStr n \<in> set (elements (getProp schema ''required'')))
   = (\<exists>r. getProp schema ''required'' = JArr r \<and> JStr n \<in> set r)"
proof -
  have "getProp schema ''required'' = JArr r \<Longrightarrow> hasProp schema ''required''" for r
    by (auto simp: getProp_def hasProp_def split: option.splits dest!: map_of_SomeD intro: rev_image_eqI)
  then show ?thesis
    by (cases "getProp schema ''required''") (auto simp: isArray_def elements_def)
qed

text \<open>
  Claim C6. A schema that declares \<^verbatim>\<open>properties\<close> (an object schema whose \<^verbatim>\<open>properties\<close> is an
  object) maps to a type literal with one member for each property name, in the order of
  the names; the member of name \<open>n\<close> carries the question token exactly when \<open>n\<close> is not an
  element of the schema's \<^verbatim>\<open>required\<close> array (all members carry it when there is no such
  array), and its type is the mapper's type of the property's schema. The mapper returns
  this whenever it returns a type \<open>ty n\<close> (with the warnings \<open>dg n\<close>) for each property.
\<close>

theorem struct_fields:
  assumes "isObject schema" and "hasProp schema ''properties''"
    and "isObject (getProp schema ''properties'')"
    and "\<forall>n \<in> set (map fst (ownProps (getProp schema ''properties''))).
           makeTypeFromSchema (getProp (getProp schema ''properties'') n) = Inr (ty n, dg n)"
  shows "makeTypeFromSchema schema =
           Inr (TypeLiteralNode
                  (map (\<lambda>n. PropertySignature n
                               (\<not> (\<exists>r. getProp schema ''required'' = JArr r \<and> JStr n \<in> set r))
                               (ty n))
                       (map fst (ownProps (getProp schema ''properties'')))),
                concat (map dg (map fst (ownProps (getProp schema ''properties'')))))"
proof -
  have q: "questionToken schema n = (\<not> (\<exists>r. getProp schema ''required'' = JArr r \<and> JStr n \<in> set r))" for n
    unfolding questionToken_def required_iff ..
  show ?thesis
    using assms(1-3) makeMembers_all[OF assms(4), of schema]
    by (subst makeTypeFromSchema.simps) (simp add: q)
qed

text \<open>The witness: \<^verbatim>\<open>{properties: {a: string, b: string}, required: [a]}\<close>.\<close>

theorem struct_fields_witness:
  "isObject (JObj [(''properties'', JObj [(''a'', JObj [(''type'', JStr ''string'')]),
                                          (''b'', JObj [(''type'', JStr ''string'')])]),
                   (''required'', JArr [JStr ''a''])])
   \<and> makeTypeFromSchema
        (JObj [(''properties'', JObj [(''a'', JObj [(''type'', JStr ''string'')]),
                                      (''b'', JObj [(''type'', JStr ''string'')])]),
               (''required'', JArr [JStr ''a''])])
     = Inr (TypeLiteralNode [PropertySignature ''a'' False (KeywordTypeNode StringKeyword),
                             PropertySignature ''b'' True (KeywordTypeNode StringKeyword)], [])"
proof -
  let ?s = "JObj [(''properties'', JObj [(''a'', JObj [(''type'', JStr ''string'')]),
                                         (''b'', JObj [(''type'', JStr ''string'')])]),
                  (''required'', JArr [JStr ''a''])]"
  have str: "makeTypeFromSchema (JObj [(''type'', JStr ''string'')]) = Inr (KeywordTypeNode StringKeyword, [])"
    by (simp add: makeTypeFromSchema.simps isObject_def hasProp_def getProp_def)
  have h1: "isObject ?s" by (simp add: isObject_def)
  have h2: "hasProp ?s ''properties''" by (simp add: hasProp_def)
  have h3: "isObject (getProp ?s ''properties'')" by (simp add: isObject_def getProp_def)
  have h4: "\<forall>n \<in> set (map fst (ownProps (getProp ?s ''properties''))).
           makeTypeFromSchema (getProp (getProp ?s ''properties'') n)
             = Inr ((\<lambda>n. KeywordTypeNode StringKeyword) n, (\<lambda>n. []) n)"
    using str by (simp add: getProp_def)
  show ?thesis
    using struct_fields[OF h1 h2 h3 h4] h1 by (simp add: getProp_def)
qed

text \<open>
  Defining a property is an update of the object as a map, and it keeps the keys distinct;
  so the object built from a list of entries holds, under each key, the value of the last
  entry with that key.
\<close>

lemma map_of_updateFirst:
  "k \<in> fst ` set ps \<Longrightarrow> map_of (updateFirst k v ps) = (map_of ps)(k \<mapsto> v)"
proof (induction ps)
  case Nil
  then show ?case by simp
next
  case (Cons p ps)
  show ?case
  proof (cases "fst p = k")
    case True
    then show ?thesis by (cases p) auto
  next
    case False
    with Cons.prems have "k \<in> fst ` set ps" by auto
    then have "map_of (updateFirst k v ps) = (map_of ps)(k \<mapsto> v)" by (rule Cons.IH)
    with False show ?thesis by (cases p) (auto simp: fun_upd_twist)
  qed
qed

lemma map_of_insertIndex:
  "k \<notin> fst ` set ps \<Longrightarrow> map_of (insertIndex n k v ps) = (map_of ps)(k \<mapsto> v)"
  by (induction ps) (auto split: option.splits simp: fun_upd_twist)

lemma map_of_js_set: "map_of (js_set k v ps) = (map_of ps)(k \<mapsto> v)"
proof (cases "k \<in> fst ` set ps")
  case True
  then show ?thesis by (simp add: js_set_def map_of_updateFirst)
next
  case False
  then have "map_of ps k = None" by (simp add: map_of_eq_None_iff)
  with False show ?thesis
    by (auto simp: js_set_def map_of_insertIndex map_add_def fun_eq_iff split: option.splits)
qed

lemma map_of_foldl_set:
  "map_of (foldl (\<lambda>obj e. js_set (fst e) (snd e) obj) acc es) = map_of acc ++ map_of (rev es)"
proof (induction es arbitrary: acc)
  case Nil
  show ?case by simp
next
  case (Cons e es)
  have "map_of (foldl (\<lambda>obj e. js_set (fst e) (snd e) obj) (js_set (fst e) (snd e) acc) es)
        = map_of (js_set (fst e) (snd e) acc) ++ map_of (rev es)" by (rule Cons.IH)
  also have "\<dots> = map_of acc ++ map_of (rev (e # es))"
    by (cases e) (auto simp: map_of_js_set map_add_def fun_eq_iff split: option.splits)
  finally show ?case by simp
qed

lemma map_of_fromEntries: "map_of (fromEntries es) = map_of (rev es)"
  using map_of_foldl_set[of "[]" es] by (simp add: fromEntries_def)

lemma keys_updateFirst: "map fst (updateFirst k v ps) = map fst ps"
  by (induction ps) auto

lemma keys_insertIndex: "set (map fst (insertIndex n k v ps)) = insert k (set (map fst ps))"
  by (induction ps) (auto split: option.splits)

lemma distinct_insertIndex:
  "k \<notin> fst ` set ps \<Longrightarrow> distinct (map fst ps) \<Longrightarrow> distinct (map fst (insertIndex n k v ps))"
proof (induction ps)
  case Nil
  show ?case by simp
next
  case (Cons p ps)
  then have "distinct (map fst (insertIndex n k v ps))" by simp
  moreover have "fst p \<notin> set (map fst (insertIndex n k v ps))"
    using Cons.prems by (auto simp only: keys_insertIndex) auto
  ultimately show ?case using Cons.prems by (auto split: option.splits)
qed

lemma distinct_js_set: "distinct (map fst ps) \<Longrightarrow> distinct (map fst (js_set k v ps))"
  by (auto simp: js_set_def keys_updateFirst distinct_insertIndex split: option.splits)

lemma distinct_foldl_set:
  "distinct (map fst acc) \<Longrightarrow> distinct (map fst (foldl (\<lambda>obj e. js_set (fst e) (snd e) obj) acc es))"
  by (induction es arbitrary: acc) (simp_all add: distinct_js_set)

lemma distinct_fromEntries: "distinct (map fst (fromEntries es))"
  using distinct_foldl_set[of "[]" es] by (simp add: fromEntries_def)

lemma allEntries_nodes:
  "\<forall>p\<in>set parts. p \<noteq> JNull \<and> p \<noteq> JUndefined \<Longrightarrow> allEntries parts = Inr (concat (map enumProps parts))"
  by (induction parts) (simp_all add: objectEntries_def)

lemma getProp_present: "getProp v k = x \<Longrightarrow> x \<noteq> JUndefined \<Longrightarrow> hasProp v k"
  by (auto simp: getProp_def hasProp_def split: option.splits dest!: map_of_SomeD intro: rev_image_eqI)

text \<open>
  Claim C7. For an object schema with neither \<^verbatim>\<open>properties\<close> nor \<^verbatim>\<open>type\<close> whose \<^verbatim>\<open>allOf\<close> is an
  array of parts, none of them \<^verbatim>\<open>null\<close> or \<^verbatim>\<open>undefined\<close>, the mapper's result is its result on
  one merged object, entered again at the first rule. The merged object is built from the
  key/value pairs of all parts in their order; it has each key once, and under a key the
  value of the last pair with that key: a later part overwrites an earlier one, key by
  key and without looking into the values.
\<close>

theorem allOf_merge:
  assumes "isObject schema" and "\<not> hasProp schema ''properties''" and "\<not> hasProp schema ''type''"
    and "getProp schema ''allOf'' = JArr parts"
    and "\<forall>p\<in>set parts. p \<noteq> JNull \<and> p \<noteq> JUndefined"
  shows "makeTypeFromSchema schema
           = makeTypeFromSchema (JObj (fromEntries (concat (map enumProps parts))))
         \<and> map_of (fromEntries (concat (map enumProps parts)))
           = map_of (rev (concat (map enumProps parts)))
         \<and> distinct (map fst (fromEntries (concat (map enumProps parts))))"
proof -
  have "hasProp schema ''allOf''" using assms(4) by (rule getProp_present) simp
  then have "makeTypeFromSchema schema
           = makeTypeFromSchema (JObj (fromEntries (concat (map enumProps parts))))"
    using assms allEntries_nodes[OF assms(5)]
    by (subst makeTypeFromSchema.simps) (simp add: isArray_def elements_def)
  then show ?thesis by (simp add: map_of_fromEntries distinct_fromEntries)
qed

text \<open>When the mapper returns the keyword \<^verbatim>\<open>unknown\<close> itself, it has warned.\<close>

lemma unknown_has_diagnostic:
  "makeTypeFromSchema schema = Inr (KeywordTypeNode UnknownKeyword, ds) \<Longrightarrow> ds \<noteq> []"
proof -
  have "\<forall>ds. makeTypeFromSchema schema = Inr (KeywordTypeNode UnknownKeyword, ds) \<longrightarrow> ds \<noteq> []"
  proof (rule makeTypeFromSchema_makeMembers.induct
           [where P = "\<lambda>s. \<forall>ds. makeTypeFromSchema s = Inr (KeywordTypeNode UnknownKeyword, ds) \<longrightarrow> ds \<noteq> []"
              and Q = "\<lambda>s p n. True"], goal_cases)
    case (1 schema)
    show ?case
      apply (subst makeTypeFromSchema.simps)
      using 1(3)
      apply (auto simp: unknownFallback_def recordType_def split: sum.splits if_splits)
      done
  qed simp_all
  then show "makeTypeFromSchema schema = Inr (KeywordTypeNode UnknownKeyword, ds) \<Longrightarrow> ds \<noteq> []"
    by blast
qed

text \<open>
  The witness: two parts that both declare \<^verbatim>\<open>properties\<close>. The second part's \<^verbatim>\<open>properties\<close>
  replaces the first's as a whole, the first part's \<^verbatim>\<open>required\<close> stays, and the merged
  object goes through the property rule.
\<close>

theorem allOf_merge_witness:
  "isObject (JObj [(''allOf'', JArr
       [JObj [(''properties'', JObj [(''a'', JObj [(''type'', JStr ''string'')])]),
              (''required'', JArr [JStr ''a''])],
        JObj [(''properties'', JObj [(''b'', JObj [(''type'', JStr ''number'')])])]])])
   \<and> makeTypeFromSchema (JObj [(''allOf'', JArr
       [JObj [(''properties'', JObj [(''a'', JObj [(''type'', JStr ''string'')])]),
              (''required'', JArr [JStr ''a''])],
        JObj [(''properties'', JObj [(''b'', JObj [(''type'', JStr ''number'')])])]])])
     = Inr (TypeLiteralNode [PropertySignature ''b'' True (KeywordTypeNode NumberKeyword)], [])"
proof -
  let ?parts = "[JObj [(''properties'', JObj [(''a'', JObj [(''type'', JStr ''string'')])]),
                       (''required'', JArr [JStr ''a''])],
                 JObj [(''properties'', JObj [(''b'', JObj [(''type'', JStr ''number'')])])]]"
  let ?s = "JObj [(''allOf'', JArr ?parts)]"
  have h1: "isObject ?s" by (simp add: isObject_def)
  have h2: "\<not> hasProp ?s ''properties''" by (simp add: hasProp_def)
  have h3: "\<not> hasProp ?s ''type''" by (simp add: hasProp_def)
  have h4: "getProp ?s ''allOf'' = JArr ?parts" by (simp add: getProp_def)
  have h5: "\<forall>p\<in>set ?parts. p \<noteq> JNull \<and> p \<noteq> JUndefined" by simp
  have m: "fromEntries (concat (map enumProps ?parts))
           = [(''properties'', JObj [(''b'', JObj [(''type'', JStr ''number'')])]),
              (''required'', JArr [JStr ''a''])]"
    by (simp add: fromEntries_def js_set_def arrayIndex_def isDigit_def)
  have r: "makeTypeFromSchema (JObj [(''properties'', JObj [(''b'', JObj [(''type'', JStr ''number'')])]),
                                     (''required'', JArr [JStr ''a''])])
           = Inr (TypeLiteralNode [PropertySignature ''b'' True (KeywordTypeNode NumberKeyword)], [])"
    by (simp add: makeTypeFromSchema.simps isObject_def hasProp_def getProp_def questionToken_def
          isArray_def elements_def)
  from allOf_merge[OF h1 h2 h3 h4 h5] m r h1 show ?thesis by simp
qed

text \<open>
  Claim C5. The mapper is not total: \<^verbatim>\<open>Object.entries\<close> throws on a part of an \<^verbatim>\<open>allOf\<close> that
  is \<^verbatim>\<open>null\<close>, and nothing catches it. The other rules test for \<^verbatim>\<open>null\<close> before they look
  into a value (\<^verbatim>\<open>schema !== null\<close>, \<^verbatim>\<open>schema.properties !== null\<close>,
  \<^verbatim>\<open>schema.items !== null\<close>); the \<^verbatim>\<open>allOf\<close> rule does not. On the schema
  \<^verbatim>\<open>{allOf: [null]}\<close> the mapper ends with a TypeError instead of a type.
\<close>

theorem type_mapper_throws:
  "makeTypeFromSchema (JObj [(''allOf'', JArr [JNull])]) = Inl TypeError"
  by (simp add: makeTypeFromSchema.simps isObject_def hasProp_def getProp_def isArray_def
        elements_def objectEntries_def)

section \<open>Operation Synthesizer\<close>

text \<open>
  The declarations of the output file: a function (always exported; its name, parameters,
  return type and body), the type alias \<^verbatim>\<open>TypedResponse\<close> (its type parameters with
  their defaults) and a documentation comment. A parameter has its binding name, the flag of
  its question token and its type.
\<close>

datatype parameter = ParameterDeclaration bindingName bool "tsType option"

datatype tsDeclaration =
    FunctionDeclaration string "parameter list" tsType "stmt list"
  | TypeAliasDeclaration string "(string \<times> tsType) list" tsType
  | JSDocComment string

text \<open>
  \<^verbatim>\<open>
  function isValidURL(str: string) {
    try { new URL(str); return true; } catch (_) { return false; }
  }
  \<close>
  The URL parser belongs to the platform: \<open>newURL str\<close> says that \<^verbatim>\<open>new URL(str)\<close> returns.
\<close>

definition isValidURL :: "(string \<Rightarrow> bool) \<Rightarrow> string \<Rightarrow> bool" where
  "isValidURL newURL str = newURL str"

text \<open>\<^verbatim>\<open>return ['POST', 'PUT', 'PATCH'].includes(method);\<close>\<close>

definition methodHasBody :: "string \<Rightarrow> bool" where
  "methodHasBody m = (m \<in> set [''POST'', ''PUT'', ''PATCH''])"

subsection \<open>makeDynamicBaseUrl\<close>

text \<open>
  \<^verbatim>\<open>
  function makeDynamicBaseUrl(value: string) {
    const parts = value.split('.').map((part) => factory.createIdentifier(part));
    if (parts.length === 1) { return parts[0]; }
    let expression = factory.createPropertyAccessExpression(parts[0], parts[1]);
    for (let i = 2; i < parts.length; i++) {
      expression = factory.createPropertyAccessExpression(expression, parts[i]);
    }
    return expression;
  }
  \<close>
  \<open>splitDot [] v\<close> is \<^verbatim>\<open>v.split('.')\<close>; it has at least one part.
\<close>

fun splitDot :: "string \<Rightarrow> string \<Rightarrow> string list" where
  "splitDot seg [] = [seg]"
| "splitDot seg (c # cs) = (if c = CHR ''.'' then seg # splitDot [] cs else splitDot (seg @ [c]) cs)"

definition makeDynamicBaseUrl :: "string \<Rightarrow> expr" where
  "makeDynamicBaseUrl v =
     (let parts = splitDot [] v
      in if length parts = 1 then Identifier (parts ! 0)
         else foldl PropertyAccessExpression
                (PropertyAccessExpression (Identifier (parts ! 0)) (parts ! 1))
                (drop 2 parts))"

subsection \<open>The return type\<close>

text \<open>
  \<^verbatim>\<open>isJSONResponse\<close> asks for an object with an object \<^verbatim>\<open>content\<close>, in it an object
  \<^verbatim>\<open>application/json\<close>, and in that an object \<^verbatim>\<open>schema\<close>.
  \<^verbatim>\<open>
  function makeOperationFunctionReturnType(responses: Record<string, unknown>) {
    const jsonResponses = Object.values(responses).filter(isJSONResponse);
    return factory.createTypeReferenceNode(factory.createIdentifier('Promise'), [
      factory.createTypeReferenceNode(factory.createIdentifier('TypedResponse'), [
        factory.createUnionTypeNode(
          jsonResponses.map((response) =>
            makeTypeFromSchema(response.content['application/json'].schema))),
      ]),
    ]);
  }
  \<close>
  \<^verbatim>\<open>Object.values\<close> throws on \<^verbatim>\<open>null\<close> and \<^verbatim>\<open>undefined\<close> (an operation without \<^verbatim>\<open>responses\<close>).
  \<open>makeTypes\<close> is the \<^verbatim>\<open>map\<close> over the JSON responses.
\<close>

definition isJSONResponse :: "jsValue \<Rightarrow> bool" where
  "isJSONResponse response =
     (isObject response
      \<and> hasProp response ''content''
      \<and> isObject (getProp response ''content'')
      \<and> hasProp (getProp response ''content'') ''application/json''
      \<and> isObject (getProp (getProp response ''content'') ''application/json'')
      \<and> hasProp (getProp (getProp response ''content'') ''application/json'') ''schema''
      \<and> isObject (getProp (getProp (getProp response ''content'') ''application/json'') ''schema''))"

definition objectValues :: "jsValue \<Rightarrow> error + jsValue list" where
  "objectValues v = (if v = JNull \<or> v = JUndefined then Inl TypeError else Inr (map snd (enumProps v)))"

definition jsonSchema :: "jsValue \<Rightarrow> jsValue" where
  "jsonSchema response = getProp (getProp (getProp response ''content'') ''application/json'') ''schema''"

fun makeTypes :: "jsValue list \<Rightarrow> error + tsType list \<times> jsValue list" where
  "makeTypes [] = Inr ([], [])"
| "makeTypes (response # rs) =
     (case makeTypeFromSchema (jsonSchema response) of
        Inl e \<Rightarrow> Inl e
      | Inr (t, ds) \<Rightarrow>
          (case makeTypes rs of
             Inl e \<Rightarrow> Inl e
           | Inr (ts, ds') \<Rightarrow> Inr (t # ts, ds @ ds')))"

definition makeOperationFunctionReturnType :: "jsValue \<Rightarrow> error + tsType \<times> jsValue list" where
  "makeOperationFunctionReturnType responses =
     (case objectValues responses of
        Inl e \<Rightarrow> Inl e
      | Inr values \<Rightarrow>
          (let jsonResponses = filter isJSONResponse values
           in case makeTypes jsonResponses of
                Inl e \<Rightarrow> Inl e
              | Inr (ts, ds) \<Rightarrow>
                  Inr (TypeReferenceNode ''Promise''
                         (Some [TypeReferenceNode ''TypedResponse'' (Some [UnionTypeNode ts])]),
                       ds)))"

subsection \<open>makeOperationFunction\<close>

text \<open>
  The configuration of an operation, with the types the source declares for it. The fields
  carry the prefix \<open>cfg_\<close>. The base URL is absent when the flag \<^verbatim>\<open>--base-url\<close> is
  not given; \<^verbatim>\<open>responses\<close> is whatever the document holds.
\<close>

record operationConfig =
  cfg_operationId :: string
  cfg_path :: string
  cfg_method :: string
  cfg_baseUrl :: "string option"
  cfg_summary :: "string option"
  cfg_description :: "string option"
  cfg_responses :: jsValue

text \<open>
  \<^verbatim>\<open>makeOperationFunction\<close> is one call of \<^verbatim>\<open>factory.createFunctionDeclaration\<close>. Its
  arguments are evaluated in order: the parameters (\<open>makeParameters\<close>), the return type, which
  may throw, and the body (\<open>makeBody\<close>) with the base of the URL (\<open>makeBaseUrlArgument\<close>) and
  the default headers (\<open>makeDefaultHeaders\<close>):
  \<^verbatim>\<open>
    config.baseUrl
      ? isValidURL(config.baseUrl)
        ? factory.createStringLiteral(config.baseUrl)
        : makeDynamicBaseUrl(config.baseUrl)
      : factory.createIdentifier('undefined')
  \<close>
  The body that is printed:
  \<^verbatim>\<open>
    const url = new URL(<template>, <base>);
    if (search) { url.search = search; }
    return fetch(url, {
      method: "<method>",
      headers: combineHeaders({ <default headers> }, requestInit.headers),
      ...requestInit
    });
  \<close>
\<close>

definition searchSignature :: tsMember where
  "searchSignature = PropertySignature ''search'' True (KeywordTypeNode StringKeyword)"

definition makeParameters :: "string list \<Rightarrow> parameter list" where
  "makeParameters params =
     [ParameterDeclaration
        (ObjectBindingPattern (if length params \<noteq> 0 then [''search'', ''params''] else [''search'']))
        False
        (Some (TypeLiteralNode
           (if length params \<noteq> 0
            then [searchSignature,
                  PropertySignature ''params'' False
                    (TypeReferenceNode ''Record''
                       (Some [UnionTypeNode (map LiteralTypeNode params),
                              KeywordTypeNode StringKeyword]))]
            else [searchSignature]))),
      ParameterDeclaration (BindingIdentifier ''requestInit'') False
        (Some (TypeReferenceNode ''Omit''
           (Some [TypeReferenceNode ''RequestInit'' None, LiteralTypeNode ''method''])))]"

definition makeBaseUrlArgument :: "(string \<Rightarrow> bool) \<Rightarrow> string option \<Rightarrow> expr" where
  "makeBaseUrlArgument newURL baseUrl =
     (case baseUrl of
        None \<Rightarrow> Identifier ''undefined''
      | Some b \<Rightarrow>
          if b \<noteq> [] then (if isValidURL newURL b then StringLiteral b else makeDynamicBaseUrl b)
          else Identifier ''undefined'')"

definition makeDefaultHeaders :: "string \<Rightarrow> objectMember list" where
  "makeDefaultHeaders m =
     (if methodHasBody m
      then [PropertyAssignment (StringLiteral ''Accept'') (StringLiteral ''application/json''),
            PropertyAssignment (StringLiteral ''Content-Type'') (StringLiteral ''application/json'')]
      else [PropertyAssignment (StringLiteral ''Accept'') (StringLiteral ''application/json'')])"

definition makeBody :: "(string \<Rightarrow> bool) \<Rightarrow> operationConfig \<Rightarrow> stmt list" where
  "makeBody newURL config =
     [VariableStatement ''url''
        (NewExpression (Identifier ''URL'')
           [makeTemplateExpressionFromPath (cfg_path config),
            makeBaseUrlArgument newURL (cfg_baseUrl config)]),
      IfStatement (Identifier ''search'')
        (Block [ExpressionStatement
                  (BinaryExpression (PropertyAccessExpression (Identifier ''url'') ''search'')
                     EqualsToken (Identifier ''search''))])
        None,
      ReturnStatement
        (CallExpression (Identifier ''fetch'')
           [Identifier ''url'',
            ObjectLiteralExpression
              [PropertyAssignment (Identifier ''method'') (StringLiteral (cfg_method config)),
               PropertyAssignment (Identifier ''headers'')
                 (CallExpression (Identifier ''combineHeaders'')
                    [ObjectLiteralExpression (makeDefaultHeaders (cfg_method config)),
                     PropertyAccessExpression (Identifier ''requestInit'') ''headers'']),
               SpreadAssignment (Identifier ''requestInit'')]])]"

definition makeOperationFunction ::
  "(string \<Rightarrow> bool) \<Rightarrow> operationConfig \<Rightarrow> error + tsDeclaration \<times> jsValue list" where
  "makeOperationFunction newURL config =
     (let params = extractParams (cfg_path config)
      in case makeOperationFunctionReturnType (cfg_responses config) of
           Inl e \<Rightarrow> Inl e
         | Inr (returnType, ds) \<Rightarrow>
             Inr (FunctionDeclaration (cfg_operationId config) (makeParameters params)
                    returnType (makeBody newURL config),
                  ds))"

subsection \<open>Properties of the Operation Synthesizer\<close>

text \<open>
  A stand-in for the platform's URL parser in the examples: it accepts what starts with
  \<^verbatim>\<open>https://\<close>.
\<close>

definition sampleNewURL :: "string \<Rightarrow> bool" where
  "sampleNewURL str = (take 8 str = ''https://'' \<and> 8 < length str)"










text \<open>
  The operation of the examples: \<^verbatim>\<open>GET /items/{id}\<close> with a JSON response 200 of a struct with
  two fields and a response 404 without a body.
\<close>

definition itemSchema :: jsValue where
  "itemSchema = JObj [(''properties'', JObj [(''id'', JObj [(''type'', JStr ''string'')]),
                                             (''count'', JObj [(''type'', JStr ''integer'')])]),
                      (''required'', JArr [JStr ''id''])]"

definition getItemConfig :: "string option \<Rightarrow> operationConfig" where
  "getItemConfig base =
     \<lparr>cfg_operationId = ''getItem'', cfg_path = ''/items/{id}'', cfg_method = ''GET'',
      cfg_baseUrl = base, cfg_summary = None, cfg_description = None,
      cfg_responses =
        JObj [(''200'', JObj [(''content'', JObj [(''application/json'', JObj [(''schema'', itemSchema)])])]),
              (''404'', JObj [(''description'', JStr ''not found'')])]\<rparr>"

definition itemType :: tsType where
  "itemType = TypeLiteralNode [PropertySignature ''id'' False (KeywordTypeNode StringKeyword),
                               PropertySignature ''count'' True (KeywordTypeNode NumberKeyword)]"

lemma itemSchema_type: "makeTypeFromSchema itemSchema = Inr (itemType, [])"
  by (simp add: itemSchema_def itemType_def makeTypeFromSchema.simps isObject_def hasProp_def
        getProp_def questionToken_def isArray_def elements_def)

lemma getItem_jsonResponses:
  "filter isJSONResponse (map snd (enumProps (cfg_responses (getItemConfig base))))
   = [JObj [(''content'', JObj [(''application/json'', JObj [(''schema'', itemSchema)])])]]"
  by (simp add: getItemConfig_def isJSONResponse_def isObject_def hasProp_def getProp_def itemSchema_def)

lemma getItem_params: "extractParams (cfg_path (getItemConfig base)) = [''id'']"
  by (simp add: getItemConfig_def notClose_def)


lemma getItem_function:
  "makeOperationFunction newURL (getItemConfig base) =
     Inr (FunctionDeclaration ''getItem'' (makeParameters [''id''])
            (TypeReferenceNode ''Promise''
               (Some [TypeReferenceNode ''TypedResponse'' (Some [UnionTypeNode [itemType]])]))
            (makeBody newURL (getItemConfig base)), [])"
proof -
  have "makeOperationFunctionReturnType (cfg_responses (getItemConfig base)) =
     Inr (TypeReferenceNode ''Promise''
               (Some [TypeReferenceNode ''TypedResponse'' (Some [UnionTypeNode [itemType]])]), [])"
    unfolding makeOperationFunctionReturnType_def
    by (simp add: objectValues_def getItem_jsonResponses)
       (simp add: getItemConfig_def jsonSchema_def getProp_def itemSchema_type)
  then show ?thesis
    unfolding makeOperationFunction_def getItem_params by (simp add: getItemConfig_def)
qed



section \<open>Header Merge Helper\<close>

subsection \<open>The platform's header container\<close>

text \<open>
  The helper that the generator emits runs on the \<^verbatim>\<open>Headers\<close> class of the Fetch standard.
  A \<^verbatim>\<open>Headers\<close> object is its header list, the names in lower case (names are compared
  without regard to case, and the iteration gives them in lower case). A \<^verbatim>\<open>HeadersInit\<close> is a
  \<^verbatim>\<open>Headers\<close> object, an array of name/value pairs or a record from names to
  values, its entries in the order of the own keys.
\<close>

type_synonym headerList = "(string \<times> string) list"

datatype headersInit =
    HeadersObject headerList
  | HeaderPairs "(string \<times> string) list"
  | HeaderRecord "(string \<times> string) list"

text \<open>
  A name is a token of HTTP; a value is stripped of leading and trailing HTTP whitespace
  and must then hold no NUL, LF or CR. \<^verbatim>\<open>append\<close> and \<^verbatim>\<open>set\<close> throw a TypeError otherwise.
\<close>

definition lowerChar :: "char \<Rightarrow> char" where
  "lowerChar c =
     (case map_of (zip ''ABCDEFGHIJKLMNOPQRSTUVWXYZ'' ''abcdefghijklmnopqrstuvwxyz'') c of
        Some l \<Rightarrow> l
      | None \<Rightarrow> c)"

definition lowerName :: "string \<Rightarrow> string" where
  "lowerName n = map lowerChar n"

definition isTokenChar :: "char \<Rightarrow> bool" where
  "isTokenChar c =
     (c \<in> set (''!#$%&*+-.^_|~'' @ [CHR 0x27, CHR 0x60] @ ''0123456789''
               @ ''abcdefghijklmnopqrstuvwxyz'' @ ''ABCDEFGHIJKLMNOPQRSTUVWXYZ''))"

definition validName :: "string \<Rightarrow> bool" where
  "validName n = (n \<noteq> [] \<and> list_all isTokenChar n)"

definition isHttpWhitespace :: "char \<Rightarrow> bool" where
  "isHttpWhitespace c = (c \<in> set [CHR 0x0A, CHR 0x0D, CHR 0x09, CHR 0x20])"

definition normalizeValue :: "string \<Rightarrow> string" where
  "normalizeValue v = rev (dropWhile isHttpWhitespace (rev (dropWhile isHttpWhitespace v)))"

definition validValue :: "string \<Rightarrow> bool" where
  "validValue v = (CHR 0x00 \<notin> set v \<and> CHR 0x0A \<notin> set v \<and> CHR 0x0D \<notin> set v)"

definition validEntry :: "string \<times> string \<Rightarrow> bool" where
  "validEntry e = (validName (fst e) \<and> validValue (normalizeValue (snd e)))"

text \<open>
  \<^verbatim>\<open>append\<close> adds the header at the end of the list. \<^verbatim>\<open>set\<close> gives the first header of
  that name the new value and removes the others of that name, or appends when there is
  none. \<^verbatim>\<open>get\<close> joins the values of a name with a comma and a space.
\<close>

fun replaceFirst :: "string \<Rightarrow> string \<Rightarrow> headerList \<Rightarrow> headerList" where
  "replaceFirst n v [] = []"
| "replaceFirst n v (p # h) =
     (if fst p = n then (n, v) # filter (\<lambda>q. fst q \<noteq> n) h else p # replaceFirst n v h)"

definition appendHeader :: "string \<times> string \<Rightarrow> headerList \<Rightarrow> error + headerList" where
  "appendHeader e h =
     (if validEntry e then Inr (h @ [(lowerName (fst e), normalizeValue (snd e))])
      else Inl TypeError)"

definition setHeader :: "string \<times> string \<Rightarrow> headerList \<Rightarrow> error + headerList" where
  "setHeader e h =
     (if validEntry e
      then Inr (if lowerName (fst e) \<in> fst ` set h
                then replaceFirst (lowerName (fst e)) (normalizeValue (snd e)) h
                else h @ [(lowerName (fst e), normalizeValue (snd e))])
      else Inl TypeError)"

fun joinValues :: "string list \<Rightarrow> string" where
  "joinValues [] = []"
| "joinValues [v] = v"
| "joinValues (v # w # vs) = v @ '', '' @ joinValues (w # vs)"


text \<open>
  The iteration of a \<^verbatim>\<open>Headers\<close> object (\<^verbatim>\<open>forEach\<close>, and the constructor's reading of one):
  the names once each, sorted by code units, each with its joined value; the values of
  \<^verbatim>\<open>set-cookie\<close> stay apart.
\<close>

fun strLess :: "string \<Rightarrow> string \<Rightarrow> bool" where
  "strLess [] [] = False"
| "strLess [] (y # ys) = True"
| "strLess (x # xs) [] = False"
| "strLess (x # xs) (y # ys) =
     ((of_char x :: nat) < of_char y \<or> (x = y \<and> strLess xs ys))"

fun insertName :: "string \<Rightarrow> string list \<Rightarrow> string list" where
  "insertName n [] = [n]"
| "insertName n (m # ms) =
     (if strLess m n then m # insertName n ms else if m = n then m # ms else n # m # ms)"

definition sortedNames :: "headerList \<Rightarrow> string list" where
  "sortedNames h = foldr insertName (map fst h) []"

definition sortAndCombine :: "headerList \<Rightarrow> (string \<times> string) list" where
  "sortAndCombine h =
     concat (map (\<lambda>n. if n = ''set-cookie'' then filter (\<lambda>p. fst p = n) h
                       else [(n, joinValues (map snd (filter (\<lambda>p. fst p = n) h)))])
                 (sortedNames h))"

fun entriesOf :: "headersInit \<Rightarrow> (string \<times> string) list" where
  "entriesOf (HeadersObject h) = sortAndCombine h"
| "entriesOf (HeaderPairs ps) = ps"
| "entriesOf (HeaderRecord ps) = ps"

text \<open>\<^verbatim>\<open>new Headers(init)\<close> appends the entries of \<open>init\<close> to the empty list.\<close>

fun appendAll :: "(string \<times> string) list \<Rightarrow> headerList \<Rightarrow> error + headerList" where
  "appendAll [] h = Inr h"
| "appendAll (e # es) h = (case appendHeader e h of Inl x \<Rightarrow> Inl x | Inr h' \<Rightarrow> appendAll es h')"

fun setAll :: "(string \<times> string) list \<Rightarrow> headerList \<Rightarrow> error + headerList" where
  "setAll [] h = Inr h"
| "setAll (e # es) h = (case setHeader e h of Inl x \<Rightarrow> Inl x | Inr h' \<Rightarrow> setAll es h')"

definition newHeaders :: "headersInit \<Rightarrow> error + headerList" where
  "newHeaders init = appendAll (entriesOf init) []"

subsection \<open>The emitted helper\<close>

text \<open>
  \<^verbatim>\<open>makeCombineHeadersFunction\<close> builds the declaration that prints as
  \<^verbatim>\<open>
  export function combineHeaders(defaultHeaders: HeadersInit, headers?: HeadersInit): Headers {
    const combinedHeaders = new Headers(defaultHeaders);
    if (headers) {
      if (headers instanceof Headers) {
        headers.forEach((value, key) => { combinedHeaders.set(key, value); });
      } else if (Array.isArray(headers)) {
        headers.forEach(([key, value]) => { combinedHeaders.set(key, value); });
      } else {
        Object.entries(headers).forEach(([key, value]) => { combinedHeaders.set(key, value); });
      }
    }
    return combinedHeaders;
  }
  \<close>
  \<open>combineHeaders\<close> is what this function computes; an absent \<^verbatim>\<open>headers\<close> is \<open>None\<close> (every
  \<^verbatim>\<open>HeadersInit\<close> is an object and so truthy).
\<close>

definition combineHeaders :: "headersInit \<Rightarrow> headersInit option \<Rightarrow> error + headerList" where
  "combineHeaders defaultHeaders headers =
     (case newHeaders defaultHeaders of
        Inl e \<Rightarrow> Inl e
      | Inr combinedHeaders \<Rightarrow>
          (case headers of
             None \<Rightarrow> Inr combinedHeaders
           | Some (HeadersObject hs) \<Rightarrow> setAll (sortAndCombine hs) combinedHeaders
           | Some (HeaderPairs ps) \<Rightarrow> setAll ps combinedHeaders
           | Some (HeaderRecord ps) \<Rightarrow> setAll ps combinedHeaders))"

subsection \<open>Properties of the helper\<close>











section \<open>The network call of an emitted function\<close>

text \<open>
  What the second argument of \<^verbatim>\<open>fetch\<close> in an emitted function evaluates to at run time. The
  values are those a caller can pass in \<^verbatim>\<open>requestInit\<close>: strings, header containers, arrays
  of pairs, objects, and any other value of an option (\<open>ROther\<close>, by a name). The evaluator
  covers the expressions of that argument: identifiers, string literals, property reads,
  object literals with property assignments and spreads, and the call of
  \<^verbatim>\<open>combineHeaders\<close>; everything else is \<open>Unsupported\<close>. An object literal defines its
  properties from left to right, and a spread defines the own properties of its object.
\<close>

datatype rtValue =
    RUndefined
  | RString string
  | RHeadersObject headerList
  | RPairs "(string \<times> string) list"
  | RObject "(string \<times> rtValue) list"
  | ROther string

datatype 'a outcome = Returns 'a | Throws error | Unsupported

fun stringProps :: "(string \<times> rtValue) list \<Rightarrow> (string \<times> string) list option" where
  "stringProps [] = Some []"
| "stringProps ((k, RString v) # ps) =
     (case stringProps ps of Some r \<Rightarrow> Some ((k, v) # r) | None \<Rightarrow> None)"
| "stringProps ((k, v) # ps) = None"

fun asHeadersInit :: "rtValue \<Rightarrow> headersInit option" where
  "asHeadersInit (RHeadersObject h) = Some (HeadersObject h)"
| "asHeadersInit (RPairs ps) = Some (HeaderPairs ps)"
| "asHeadersInit (RObject ps) =
     (case stringProps ps of Some r \<Rightarrow> Some (HeaderRecord r) | None \<Rightarrow> None)"
| "asHeadersInit v = None"

definition callCombineHeaders :: "rtValue \<Rightarrow> rtValue \<Rightarrow> rtValue outcome" where
  "callCombineHeaders a b =
     (case asHeadersInit a of
        None \<Rightarrow> Unsupported
      | Some d \<Rightarrow>
          (if b = RUndefined
           then (case combineHeaders d None of Inl e \<Rightarrow> Throws e | Inr h \<Rightarrow> Returns (RHeadersObject h))
           else (case asHeadersInit b of
                   None \<Rightarrow> Unsupported
                 | Some ov \<Rightarrow>
                     (case combineHeaders d (Some ov) of
                        Inl e \<Rightarrow> Throws e
                      | Inr h \<Rightarrow> Returns (RHeadersObject h)))))"

fun propertyName :: "expr \<Rightarrow> string option" where
  "propertyName (Identifier n) = Some n"
| "propertyName (StringLiteral s) = Some s"
| "propertyName e = None"

fun evalExpr :: "(string \<times> rtValue) list \<Rightarrow> expr \<Rightarrow> rtValue outcome"
  and evalMembers ::
    "(string \<times> rtValue) list \<Rightarrow> objectMember list \<Rightarrow> (string \<times> rtValue) list
       \<Rightarrow> (string \<times> rtValue) list outcome"
where
  "evalExpr env (Identifier x) =
     (case map_of env x of Some v \<Rightarrow> Returns v | None \<Rightarrow> Unsupported)"
| "evalExpr env (StringLiteral s) = Returns (RString s)"
| "evalExpr env (PropertyAccessExpression e n) =
     (case evalExpr env e of
        Returns (RObject ps) \<Rightarrow> Returns (case map_of ps n of Some v \<Rightarrow> v | None \<Rightarrow> RUndefined)
      | Returns RUndefined \<Rightarrow> Throws TypeError
      | Returns v \<Rightarrow> Unsupported
      | Throws x \<Rightarrow> Throws x
      | Unsupported \<Rightarrow> Unsupported)"
| "evalExpr env (ObjectLiteralExpression ms) =
     (case evalMembers env ms [] of
        Returns ps \<Rightarrow> Returns (RObject ps)
      | Throws x \<Rightarrow> Throws x
      | Unsupported \<Rightarrow> Unsupported)"
| "evalExpr env (CallExpression f [a, b]) =
     (if f = Identifier ''combineHeaders''
      then (case evalExpr env a of
              Returns va \<Rightarrow>
                (case evalExpr env b of
                   Returns vb \<Rightarrow> callCombineHeaders va vb
                 | Throws x \<Rightarrow> Throws x
                 | Unsupported \<Rightarrow> Unsupported)
            | Throws x \<Rightarrow> Throws x
            | Unsupported \<Rightarrow> Unsupported)
      else Unsupported)"
| "evalExpr env e = Unsupported"
| "evalMembers env [] obj = Returns obj"
| "evalMembers env (PropertyAssignment k e # ms) obj =
     (case propertyName k of
        None \<Rightarrow> Unsupported
      | Some n \<Rightarrow>
          (case evalExpr env e of
             Returns v \<Rightarrow> evalMembers env ms (js_set n v obj)
           | Throws x \<Rightarrow> Throws x
           | Unsupported \<Rightarrow> Unsupported))"
| "evalMembers env (SpreadAssignment e # ms) obj =
     (case evalExpr env e of
        Returns (RObject ps) \<Rightarrow>
          evalMembers env ms (foldl (\<lambda>obj p. js_set (fst p) (snd p) obj) obj ps)
      | Returns RUndefined \<Rightarrow> evalMembers env ms obj
      | Returns v \<Rightarrow> Unsupported
      | Throws x \<Rightarrow> Throws x
      | Unsupported \<Rightarrow> Unsupported)"

text \<open>The second argument of the \<^verbatim>\<open>fetch\<close> call that an emitted function returns.\<close>

fun fetchInit :: "tsDeclaration \<Rightarrow> expr option" where
  "fetchInit (FunctionDeclaration n ps rt [s1, s2, ReturnStatement (CallExpression f [u, init])]) =
     (if f = Identifier ''fetch'' then Some init else None)"
| "fetchInit d = None"

text \<open>
  Claim C1. The emitted object literal is
  \<^verbatim>\<open>{ method: ..., headers: combineHeaders({...}, requestInit.headers), ...requestInit }\<close>:
  the spread comes after \<^verbatim>\<open>headers\<close>, so a caller's own \<^verbatim>\<open>headers\<close> property overwrites the
  merged container that was just computed. For the example operation called with
  \<^verbatim>\<open>requestInit = {headers: {"X-Extra": "1"}}\<close> the network call gets the caller's object as
  its headers, without \<^verbatim>\<open>Accept\<close>, where the merge gives \<^verbatim>\<open>accept\<close> and \<^verbatim>\<open>x-extra\<close>.
\<close>

theorem fetch_headers_overwritten:
  "\<exists>d init.
     makeOperationFunction sampleNewURL (getItemConfig None) = Inr (d, [])
     \<and> fetchInit d = Some init
     \<and> evalExpr [(''requestInit'', RObject [(''headers'', RObject [(''X-Extra'', RString ''1'')])])] init
         = Returns (RObject [(''method'', RString ''GET''),
                             (''headers'', RObject [(''X-Extra'', RString ''1'')])])
     \<and> callCombineHeaders (RObject [(''Accept'', RString ''application/json'')])
           (RObject [(''X-Extra'', RString ''1'')])
         = Returns (RHeadersObject [(''accept'', ''application/json''), (''x-extra'', ''1'')])"
proof -
  let ?d = "FunctionDeclaration ''getItem'' (makeParameters [''id''])
            (TypeReferenceNode ''Promise''
               (Some [TypeReferenceNode ''TypedResponse'' (Some [UnionTypeNode [itemType]])]))
            (makeBody sampleNewURL (getItemConfig None))"
  let ?init = "ObjectLiteralExpression
              [PropertyAssignment (Identifier ''method'') (StringLiteral ''GET''),
               PropertyAssignment (Identifier ''headers'')
                 (CallExpression (Identifier ''combineHeaders'')
                    [ObjectLiteralExpression
                       [PropertyAssignment (StringLiteral ''Accept'') (StringLiteral ''application/json'')],
                     PropertyAccessExpression (Identifier ''requestInit'') ''headers'']),
               SpreadAssignment (Identifier ''requestInit'')]"
  have c: "callCombineHeaders (RObject [(''Accept'', RString ''application/json'')])
           (RObject [(''X-Extra'', RString ''1'')])
         = Returns (RHeadersObject [(''accept'', ''application/json''), (''x-extra'', ''1'')])"
    by (simp add: callCombineHeaders_def combineHeaders_def newHeaders_def appendHeader_def
          setHeader_def validEntry_def validName_def validValue_def normalizeValue_def
          isTokenChar_def isHttpWhitespace_def lowerName_def lowerChar_def)
  have f: "fetchInit ?d = Some ?init"
    by (simp add: makeBody_def getItemConfig_def makeDefaultHeaders_def methodHasBody_def)
  have e: "evalExpr [(''requestInit'', RObject [(''headers'', RObject [(''X-Extra'', RString ''1'')])])] ?init
         = Returns (RObject [(''method'', RString ''GET''),
                             (''headers'', RObject [(''X-Extra'', RString ''1'')])])"
    by (simp add: c js_set_def arrayIndex_def isDigit_def)
  from getItem_function[of sampleNewURL None] f e c show ?thesis by blast
qed

section \<open>The generation run\<close>

subsection \<open>The two fixed declarations\<close>

text \<open>
  \<^verbatim>\<open>makeTypedResponseType\<close> builds
  \<^verbatim>\<open>type TypedResponse<T = unknown> = Omit<Response, 'json'> & { json(): Promise<T> }\<close>
  (without a modifier), and \<^verbatim>\<open>makeCombineHeadersFunction\<close> builds the declaration of the
  Header Merge Helper. \<open>setCall\<close> is the statement \<^verbatim>\<open>combinedHeaders.set(key, value);\<close> of
  its three loops.
\<close>

definition headersInitType :: tsType where
  "headersInitType = TypeReferenceNode ''HeadersInit'' None"

definition setCall :: stmt where
  "setCall = ExpressionStatement
     (CallExpression (PropertyAccessExpression (Identifier ''combinedHeaders'') ''set'')
        [Identifier ''key'', Identifier ''value''])"

definition makeTypedResponseType :: tsDeclaration where
  "makeTypedResponseType =
     TypeAliasDeclaration ''TypedResponse'' [(''T'', KeywordTypeNode UnknownKeyword)]
       (IntersectionTypeNode
          [TypeReferenceNode ''Omit''
             (Some [TypeReferenceNode ''Response'' None, LiteralTypeNode ''json'']),
           TypeLiteralNode
             [MethodSignature ''json''
                (TypeReferenceNode ''Promise'' (Some [TypeReferenceNode ''T'' None]))]])"

definition makeCombineHeadersFunction :: tsDeclaration where
  "makeCombineHeadersFunction =
     FunctionDeclaration ''combineHeaders''
       [ParameterDeclaration (BindingIdentifier ''defaultHeaders'') False (Some headersInitType),
        ParameterDeclaration (BindingIdentifier ''headers'') True (Some headersInitType)]
       (TypeReferenceNode ''Headers'' None)
       [VariableStatement ''combinedHeaders''
          (NewExpression (Identifier ''Headers'') [Identifier ''defaultHeaders'']),
        IfStatement (Identifier ''headers'')
          (Block
             [IfStatement
                (BinaryExpression (Identifier ''headers'') InstanceOfKeyword (Identifier ''Headers''))
                (Block
                   [ExpressionStatement
                      (CallExpression (PropertyAccessExpression (Identifier ''headers'') ''forEach'')
                         [ArrowFunction [BindingIdentifier ''value'', BindingIdentifier ''key'']
                            [setCall]])])
                (Some (IfStatement
                   (CallExpression (PropertyAccessExpression (Identifier ''Array'') ''isArray'')
                      [Identifier ''headers''])
                   (Block
                      [ExpressionStatement
                         (CallExpression (PropertyAccessExpression (Identifier ''headers'') ''forEach'')
                            [ArrowFunction [ArrayBindingPattern [''key'', ''value'']] [setCall]])])
                   (Some (Block
                      [ExpressionStatement
                         (CallExpression
                            (PropertyAccessExpression
                               (CallExpression
                                  (PropertyAccessExpression (Identifier ''Object'') ''entries'')
                                  [Identifier ''headers''])
                               ''forEach'')
                            [ArrowFunction [ArrayBindingPattern [''key'', ''value'']] [setCall]])]))))])
          None,
        ReturnStatement (Identifier ''combinedHeaders'')]"

subsection \<open>getOptions\<close>

text \<open>
  \<^verbatim>\<open>
  function getOptions(args: string[]): Options {
    if (args.length % 2 !== 0) { throw new Error('Invalid number of arguments'); }
    const parsedArgs: Record<string, string> = {};
    for (let i = 0; i < args.length; i += 2) { parsedArgs[args[i]] = args[i + 1]; }
    const options = { input: parsedArgs['--input'], output: parsedArgs['--output'],
                      baseUrl: parsedArgs['--base-url'] };
    return options;
  }
  \<close>
  An option whose flag is not given is \<^verbatim>\<open>undefined\<close>: \<open>None\<close>.
\<close>

record options =
  opt_input :: "string option"
  opt_output :: "string option"
  opt_baseUrl :: "string option"

fun parseArgs :: "string list \<Rightarrow> (string \<rightharpoonup> string) \<Rightarrow> (string \<rightharpoonup> string)" where
  "parseArgs (flag # v # rest) parsedArgs = parseArgs rest (parsedArgs(flag \<mapsto> v))"
| "parseArgs rest parsedArgs = parsedArgs"

definition getOptions :: "string list \<Rightarrow> error + options" where
  "getOptions args =
     (if length args mod 2 \<noteq> 0 then Inl (Error ''Invalid number of arguments'')
      else (let parsedArgs = parseArgs args Map.empty
            in Inr \<lparr>opt_input = parsedArgs ''--input'',
                    opt_output = parsedArgs ''--output'',
                    opt_baseUrl = parsedArgs ''--base-url''\<rparr>))"

subsection \<open>The platform\<close>

text \<open>
  What the run takes from outside the repository: the URL parser, \<^verbatim>\<open>toUpperCase\<close>,
  \<^verbatim>\<open>resolve(process.cwd(), p)\<close> and \<^verbatim>\<open>dirname\<close>, the resolver
  \<^verbatim>\<open>SwaggerParser.dereference\<close> (it reads the file system and returns the document or
  throws), the printer, and \<^verbatim>\<open>mkdir\<close> and \<^verbatim>\<open>writeFile\<close>, which change the file system
  \<open>'fs\<close> and may fail.
\<close>

record 'fs platform =
  pf_newURL :: "string \<Rightarrow> bool"
  pf_toUpperCase :: "string \<Rightarrow> string"
  pf_resolve :: "string \<Rightarrow> string"
  pf_dirname :: "string \<Rightarrow> string"
  pf_dereference :: "string \<Rightarrow> 'fs \<Rightarrow> error + jsValue"
  pf_printFile :: "tsDeclaration list \<Rightarrow> string"
  pf_mkdir :: "string \<Rightarrow> 'fs \<Rightarrow> error option \<times> 'fs"
  pf_writeFile :: "string \<Rightarrow> string \<Rightarrow> 'fs \<Rightarrow> error option \<times> 'fs"

subsection \<open>The document walker\<close>

text \<open>
  \<open>truthy v\<close> is the value of \<open>v\<close> as a condition; \<open>isString v\<close> is
  \<^verbatim>\<open>typeof v === 'string'\<close>; \<^verbatim>\<open>Object.keys\<close> throws on \<^verbatim>\<open>null\<close> and \<^verbatim>\<open>undefined\<close>.
\<close>

definition truthy :: "jsValue \<Rightarrow> bool" where
  "truthy v =
     (case v of
        JUndefined \<Rightarrow> False
      | JNull \<Rightarrow> False
      | JBool b \<Rightarrow> b
      | JNum n \<Rightarrow> n \<noteq> 0
      | JStr s \<Rightarrow> s \<noteq> []
      | JArr xs \<Rightarrow> True
      | JObj ps \<Rightarrow> True)"

definition isString :: "jsValue \<Rightarrow> bool" where
  "isString v = (case v of JStr s \<Rightarrow> True | _ \<Rightarrow> False)"

definition objectKeys :: "jsValue \<Rightarrow> error + string list" where
  "objectKeys v = (if v = JNull \<or> v = JUndefined then Inl TypeError else Inr (map fst (enumProps v)))"

text \<open>
  \<^verbatim>\<open>
  const operationConfigs = Object.getOwnPropertyNames(paths)
    .map((path) => {
      const pathItem = paths[path]!;
      return Object.keys(pathItem).map((method) => {
        const operation = pathItem[method as keyof typeof pathItem]!;
        if (Array.isArray(operation)) { throw new Error('Operation is an array'); }
        if (typeof operation === 'string') { throw new Error('Operation is a string'); }
        if (!('operationId' in operation)) { throw new Error('No operationId'); }
        return { path, method: method.toUpperCase(), ...(operation as {...}) };
      });
    })
    .flat();
  \<close>
  \<open>pathItemConfigs\<close> is the inner \<^verbatim>\<open>map\<close> over the keys of a path item and \<open>pathsConfigs\<close>
  the outer one over the paths. The operator \<^verbatim>\<open>in\<close> throws a TypeError on a value that is
  not an object (a number, a boolean, \<^verbatim>\<open>null\<close>). The configuration is the object that the
  literal with its spread creates.
\<close>

fun pathItemConfigs ::
  "(string \<Rightarrow> string) \<Rightarrow> string \<Rightarrow> jsValue \<Rightarrow> string list \<Rightarrow> error + jsValue list" where
  "pathItemConfigs toUpperCase path pathItem [] = Inr []"
| "pathItemConfigs toUpperCase path pathItem (m # ms) =
     (let operation = getProp pathItem m
      in if isArray operation then Inl (Error ''Operation is an array'')
         else if isString operation then Inl (Error ''Operation is a string'')
         else if \<not> isObject operation then Inl TypeError
         else if \<not> hasProp operation ''operationId'' then Inl (Error ''No operationId'')
         else (case pathItemConfigs toUpperCase path pathItem ms of
                 Inl e \<Rightarrow> Inl e
               | Inr rest \<Rightarrow>
                   Inr (JObj (fromEntries ([(''path'', JStr path), (''method'', JStr (toUpperCase m))]
                                           @ enumProps operation))
                        # rest)))"

fun pathsConfigs ::
  "(string \<Rightarrow> string) \<Rightarrow> jsValue \<Rightarrow> string list \<Rightarrow> error + jsValue list" where
  "pathsConfigs toUpperCase paths [] = Inr []"
| "pathsConfigs toUpperCase paths (path # ps) =
     (case objectKeys (getProp paths path) of
        Inl e \<Rightarrow> Inl e
      | Inr methods \<Rightarrow>
          (case pathItemConfigs toUpperCase path (getProp paths path) methods of
             Inl e \<Rightarrow> Inl e
           | Inr cs \<Rightarrow>
               (case pathsConfigs toUpperCase paths ps of
                  Inl e \<Rightarrow> Inl e
                | Inr rest \<Rightarrow> Inr (cs @ rest))))"

definition operationConfigs :: "(string \<Rightarrow> string) \<Rightarrow> jsValue \<Rightarrow> error + jsValue list" where
  "operationConfigs toUpperCase paths = pathsConfigs toUpperCase paths (map fst (ownProps paths))"

subsection \<open>The declarations of the operations\<close>

text \<open>
  The source asserts the type of an operation without a test
  (\<^verbatim>\<open>operation as {operationId: string; description?: string; summary?: string; ...}\<close>), and
  \<^verbatim>\<open>makeOperationFunction\<close> declares its configuration with strings. \<open>asOperationConfig\<close>
  reads the configuration object at these types; it is \<open>None\<close> for an object that does not
  have them, where the run depends on what the syntax-tree factory and the printer do with
  values that are not strings, and the model of the run ends (\<open>None\<close>). The optional
  fields are only used where they are truthy, so a falsy value that is not a string
  (\<^verbatim>\<open>undefined\<close>, \<^verbatim>\<open>null\<close>) counts as absent.
\<close>

fun optionalString :: "jsValue \<Rightarrow> string option option" where
  "optionalString (JStr s) = Some (Some s)"
| "optionalString v = (if truthy v then None else Some None)"

definition asOperationConfig :: "jsValue \<Rightarrow> operationConfig option" where
  "asOperationConfig obj =
     (case (getProp obj ''operationId'', getProp obj ''path'', getProp obj ''method'',
            optionalString (getProp obj ''baseUrl''), optionalString (getProp obj ''summary''),
            optionalString (getProp obj ''description'')) of
        (JStr i, JStr p, JStr m, Some b, Some s, Some d) \<Rightarrow>
          Some \<lparr>cfg_operationId = i, cfg_path = p, cfg_method = m, cfg_baseUrl = b,
                cfg_summary = s, cfg_description = d, cfg_responses = getProp obj ''responses''\<rparr>
      | _ \<Rightarrow> None)"

text \<open>
  \<^verbatim>\<open>
  ...operationConfigs.map((config) => {
    const nodes = [];
    const jsDocNodes: string[] = [];
    if (config.summary) { jsDocNodes.push(`@summary ${config.summary}`); }
    if (config.description) { jsDocNodes.push(`@description ${config.description}`); }
    if (jsDocNodes.length) {
      nodes.push(ts.factory.createJSDocComment(jsDocNodes.join('\n')));
    }
    nodes.push(makeOperationFunction({ baseUrl: options.baseUrl, ...config }));
    return nodes;
  }).flat()
  \<close>
\<close>

definition optionalValue :: "string option \<Rightarrow> jsValue" where
  "optionalValue s = (case s of None \<Rightarrow> JUndefined | Some x \<Rightarrow> JStr x)"

definition joinLines :: "string list \<Rightarrow> string" where
  "joinLines ls = (case ls of [] \<Rightarrow> [] | l # rest \<Rightarrow> l @ concat (map (\<lambda>x. CHR 0x0A # x) rest))"

definition makeJSDoc :: "operationConfig \<Rightarrow> tsDeclaration list" where
  "makeJSDoc config =
     (let jsDocNodes =
            (case cfg_summary config of
               Some s \<Rightarrow> (if s \<noteq> [] then [''@summary '' @ s] else [])
             | None \<Rightarrow> [])
            @ (case cfg_description config of
                 Some d \<Rightarrow> (if d \<noteq> [] then [''@description '' @ d] else [])
               | None \<Rightarrow> [])
      in if length jsDocNodes \<noteq> 0 then [JSDocComment (joinLines jsDocNodes)] else [])"

fun operationNodes ::
  "(string \<Rightarrow> bool) \<Rightarrow> string option \<Rightarrow> jsValue list \<Rightarrow> (error + tsDeclaration list) option" where
  "operationNodes newURL baseUrl [] = Some (Inr [])"
| "operationNodes newURL baseUrl (config # cs) =
     (case asOperationConfig
             (JObj (fromEntries ((''baseUrl'', optionalValue baseUrl) # enumProps config))) of
        None \<Rightarrow> None
      | Some c \<Rightarrow>
          (case makeOperationFunction newURL c of
             Inl e \<Rightarrow> Some (Inl e)
           | Inr (f, ds) \<Rightarrow>
               (case operationNodes newURL baseUrl cs of
                  None \<Rightarrow> None
                | Some (Inl e) \<Rightarrow> Some (Inl e)
                | Some (Inr rest) \<Rightarrow> Some (Inr (makeJSDoc c @ [f] @ rest)))))"

subsection \<open>execute\<close>

text \<open>
  \<^verbatim>\<open>
  export async function execute(args: string[]) {
    const options = getOptions(args);
    const inputPath = resolve(process.cwd(), options.input);
    const outputPath = resolve(process.cwd(), options.output);
    const inputDocument = await SwaggerParser.dereference(inputPath);
    ...
    if (!inputDocument.paths) { throw new Error('No paths'); }
    const paths = inputDocument.paths;
    const operationConfigs = ...;
    resultFile.statements = ts.factory.createNodeArray([
      makeTypedResponseType(), makeCombineHeadersFunction(), ...]);
    const printer = ts.createPrinter({ newLine: ts.NewLineKind.LineFeed });
    const result = printer.printFile(resultFile);
    await mkdir(dirname(outputPath), { recursive: true });
    await writeFile(outputPath, result);
  }
  \<close>
  The run takes the file system and returns it with the error it ended with, if any.
  \<^verbatim>\<open>resolve\<close> throws a TypeError on an option that is \<^verbatim>\<open>undefined\<close>. The warnings of the Type
  Mapper go to the console, which is not part of the result.
\<close>

definition execute :: "'fs platform \<Rightarrow> string list \<Rightarrow> 'fs \<Rightarrow> (error option \<times> 'fs) option" where
  "execute pf args fs =
     (case getOptions args of
        Inl e \<Rightarrow> Some (Some e, fs)
      | Inr options \<Rightarrow>
     (case opt_input options of
        None \<Rightarrow> Some (Some TypeError, fs)
      | Some input \<Rightarrow>
     (case opt_output options of
        None \<Rightarrow> Some (Some TypeError, fs)
      | Some output \<Rightarrow>
     (case pf_dereference pf (pf_resolve pf input) fs of
        Inl e \<Rightarrow> Some (Some e, fs)
      | Inr inputDocument \<Rightarrow>
          if inputDocument = JNull \<or> inputDocument = JUndefined then Some (Some TypeError, fs)
          else if \<not> truthy (getProp inputDocument ''paths'') then Some (Some (Error ''No paths''), fs)
          else
     (case operationConfigs (pf_toUpperCase pf) (getProp inputDocument ''paths'') of
        Inl e \<Rightarrow> Some (Some e, fs)
      | Inr configs \<Rightarrow>
     (case operationNodes (pf_newURL pf) (opt_baseUrl options) configs of
        None \<Rightarrow> None
      | Some (Inl e) \<Rightarrow> Some (Some e, fs)
      | Some (Inr nodes) \<Rightarrow>
          (let result = pf_printFile pf ([makeTypedResponseType, makeCombineHeadersFunction] @ nodes)
           in case pf_mkdir pf (pf_dirname pf (pf_resolve pf output)) fs of
                (Some e, fs') \<Rightarrow> Some (Some e, fs')
              | (None, fs') \<Rightarrow> Some (pf_writeFile pf (pf_resolve pf output) result fs'))))))))"

subsection \<open>Properties of the run\<close>

text \<open>
  The errors of the walker, and the operation entries on which it throws: an array, a
  string, or a value without \<^verbatim>\<open>operationId\<close>.
\<close>

definition walkerError :: "error \<Rightarrow> bool" where
  "walkerError e =
     (e = Error ''Operation is an array'' \<or> e = Error ''Operation is a string''
      \<or> e = Error ''No operationId'' \<or> e = TypeError)"

definition fatalEntry :: "jsValue \<Rightarrow> bool" where
  "fatalEntry operation =
     (isArray operation \<or> isString operation \<or> \<not> hasProp operation ''operationId'')"

lemma hasProp_isObject: "hasProp v k \<Longrightarrow> \<not> isString v \<Longrightarrow> isObject v"
  by (cases v) (auto simp: hasProp_def isString_def isObject_def)

lemma pathItemConfigs_error:
  "pathItemConfigs up path pathItem ms = Inl e \<Longrightarrow> walkerError e"
  by (induction ms) (auto simp: Let_def walkerError_def split: if_splits sum.splits)

lemma pathItemConfigs_fatal:
  "m \<in> set ms \<Longrightarrow> fatalEntry (getProp pathItem m) \<Longrightarrow>
   \<exists>e. pathItemConfigs up path pathItem ms = Inl e"
proof (induction ms)
  case Nil
  then show ?case by simp
next
  case (Cons k ks)
  show ?case
  proof (cases "m = k")
    case True
    with Cons.prems(2) show ?thesis
      by (auto simp: fatalEntry_def Let_def)
  next
    case False
    with Cons obtain e where "pathItemConfigs up path pathItem ks = Inl e" by auto
    then show ?thesis by (auto simp: Let_def)
  qed
qed

lemma pathsConfigs_error: "pathsConfigs up paths ps = Inl e \<Longrightarrow> walkerError e"
proof (induction ps)
  case Nil
  then show ?case by simp
next
  case (Cons p ps)
  then show ?case
    by (auto simp: objectKeys_def walkerError_def split: sum.splits if_splits
             dest: pathItemConfigs_error[unfolded walkerError_def])
qed

lemma pathsConfigs_fatal:
  "path \<in> set ps \<Longrightarrow> m \<in> set (map fst (enumProps (getProp paths path))) \<Longrightarrow>
   fatalEntry (getProp (getProp paths path) m) \<Longrightarrow>
   \<exists>e. pathsConfigs up paths ps = Inl e"
proof (induction ps)
  case Nil
  then show ?case by simp
next
  case (Cons p ps)
  show ?case
  proof (cases "path = p")
    case True
    show ?thesis
    proof (cases "objectKeys (getProp paths p)")
      case (Inl e)
      then show ?thesis by simp
    next
      case (Inr methods)
      then have "methods = map fst (enumProps (getProp paths p))"
        by (auto simp: objectKeys_def split: if_splits)
      with Cons.prems True obtain e where
        "pathItemConfigs up p (getProp paths p) methods = Inl e"
        using pathItemConfigs_fatal[of m methods "getProp paths p" up p] by auto
      with Inr show ?thesis by simp
    qed
  next
    case False
    with Cons obtain e where "pathsConfigs up paths ps = Inl e" by auto
    then show ?thesis by (auto split: sum.splits)
  qed
qed

lemma execute_walker:
  assumes "getOptions args = Inr options" and "opt_input options = Some inFile"
    and "opt_output options = Some outFile"
    and "pf_dereference pf (pf_resolve pf inFile) fs = Inr doc"
    and "doc \<noteq> JNull" and "doc \<noteq> JUndefined" and "truthy (getProp doc ''paths'')"
    and "operationConfigs (pf_toUpperCase pf) (getProp doc ''paths'') = Inl e"
  shows "execute pf args fs = Some (Some e, fs)"
  using assms by (simp add: execute_def)

text \<open>
  Claim C8. A run with an odd number of arguments ends with the error
  \<^verbatim>\<open>Invalid number of arguments\<close>. A run whose document has no \<^verbatim>\<open>paths\<close> (or a falsy one) ends
  with \<^verbatim>\<open>No paths\<close>. A run whose document has, under some path, a key whose value is an array,
  a string, or has no \<^verbatim>\<open>operationId\<close>, ends with one of the walker's errors. In each case
  the file system is the one the run started with: nothing was created or written, for no
  operation.
\<close>

theorem fatal_conditions_abort:
  "(odd (length args) \<longrightarrow>
      execute pf args fs = Some (Some (Error ''Invalid number of arguments''), fs))
   \<and> (getOptions args = Inr options \<and> opt_input options = Some inFile
        \<and> opt_output options = Some outFile
        \<and> pf_dereference pf (pf_resolve pf inFile) fs = Inr doc
        \<and> doc \<noteq> JNull \<and> doc \<noteq> JUndefined \<longrightarrow>
        (\<not> truthy (getProp doc ''paths'') \<longrightarrow>
           execute pf args fs = Some (Some (Error ''No paths''), fs))
        \<and> (truthy (getProp doc ''paths'')
             \<and> path \<in> set (map fst (ownProps (getProp doc ''paths'')))
             \<and> m \<in> set (map fst (enumProps (getProp (getProp doc ''paths'') path)))
             \<and> (isArray (getProp (getProp (getProp doc ''paths'') path) m)
                  \<or> isString (getProp (getProp (getProp doc ''paths'') path) m)
                  \<or> \<not> hasProp (getProp (getProp (getProp doc ''paths'') path) m) ''operationId'')
             \<longrightarrow> (\<exists>e. execute pf args fs = Some (Some e, fs)
                       \<and> (e = Error ''Operation is an array'' \<or> e = Error ''Operation is a string''
                            \<or> e = Error ''No operationId'' \<or> e = TypeError))))"
proof (intro conjI impI)
  assume "odd (length args)"
  then have "length args mod 2 \<noteq> 0" by presburger
  then show "execute pf args fs = Some (Some (Error ''Invalid number of arguments''), fs)"
    by (simp add: execute_def getOptions_def)
next
  assume h: "getOptions args = Inr options \<and> opt_input options = Some inFile
        \<and> opt_output options = Some outFile
        \<and> pf_dereference pf (pf_resolve pf inFile) fs = Inr doc
        \<and> doc \<noteq> JNull \<and> doc \<noteq> JUndefined"
  {
    assume "\<not> truthy (getProp doc ''paths'')"
    with h show "execute pf args fs = Some (Some (Error ''No paths''), fs)"
      by (simp add: execute_def)
  next
    let ?paths = "getProp doc ''paths''"
    assume f: "truthy ?paths
             \<and> path \<in> set (map fst (ownProps ?paths))
             \<and> m \<in> set (map fst (enumProps (getProp ?paths path)))
             \<and> (isArray (getProp (getProp ?paths path) m)
                  \<or> isString (getProp (getProp ?paths path) m)
                  \<or> \<not> hasProp (getProp (getProp ?paths path) m) ''operationId'')"
    then have "fatalEntry (getProp (getProp ?paths path) m)" by (simp add: fatalEntry_def)
    with f obtain e where e: "operationConfigs (pf_toUpperCase pf) ?paths = Inl e"
      unfolding operationConfigs_def
      using pathsConfigs_fatal[of path "map fst (ownProps ?paths)" m ?paths "pf_toUpperCase pf"]
      by blast
    then have "walkerError e" unfolding operationConfigs_def by (rule pathsConfigs_error)
    moreover from h f e have "execute pf args fs = Some (Some e, fs)"
      by (intro execute_walker[of args options inFile outFile pf fs doc e]) simp_all
    ultimately show "\<exists>e. execute pf args fs = Some (Some e, fs)
                       \<and> (e = Error ''Operation is an array'' \<or> e = Error ''Operation is a string''
                            \<or> e = Error ''No operationId'' \<or> e = TypeError)"
      unfolding walkerError_def by blast
  }
qed

text \<open>
  A platform for the examples: every path resolves to the given document, the file system
  is the list of the files written, and upper case is that of the ASCII letters.
\<close>

definition upperAscii :: "string \<Rightarrow> string" where
  "upperAscii s =
     map (\<lambda>c. case map_of (zip ''abcdefghijklmnopqrstuvwxyz'' ''ABCDEFGHIJKLMNOPQRSTUVWXYZ'') c of
                 Some u \<Rightarrow> u
               | None \<Rightarrow> c) s"

definition samplePlatform :: "jsValue \<Rightarrow> (string \<times> string) list platform" where
  "samplePlatform doc =
     \<lparr>pf_newURL = sampleNewURL,
      pf_toUpperCase = upperAscii,
      pf_resolve = (\<lambda>p. ''/work/'' @ p),
      pf_dirname = (\<lambda>p. ''/work''),
      pf_dereference = (\<lambda>p fs. Inr doc),
      pf_printFile = (\<lambda>ds. ''(printed)''),
      pf_mkdir = (\<lambda>d fs. (None, fs)),
      pf_writeFile = (\<lambda>p t fs. (None, (p, t) # fs))\<rparr>"

definition sampleArgs :: "string list" where
  "sampleArgs = [''--input'', ''api.json'', ''--output'', ''sdk.ts'']"

definition sampleOptions :: options where
  "sampleOptions = \<lparr>opt_input = Some ''api.json'', opt_output = Some ''sdk.ts'', opt_baseUrl = None\<rparr>"

lemma sampleArgs_options: "getOptions sampleArgs = Inr sampleOptions"
  by (simp add: getOptions_def sampleArgs_def sampleOptions_def)

definition noOperationIdDocument :: jsValue where
  "noOperationIdDocument =
     JObj [(''openapi'', JStr ''3.0.0''),
           (''paths'', JObj [(''/items'', JObj [(''get'', JObj [(''responses'', JObj [])])])])]"

text \<open>
  The witness of claim C8: three arguments; a document without \<^verbatim>\<open>paths\<close>; a document whose
  only operation has no \<^verbatim>\<open>operationId\<close>.
\<close>

theorem fatal_conditions_abort_witness:
  "execute (samplePlatform noOperationIdDocument) [''--input'', ''api.json'', ''--output''] []
     = Some (Some (Error ''Invalid number of arguments''), [])
   \<and> execute (samplePlatform (JObj [(''openapi'', JStr ''3.0.0'')])) sampleArgs []
     = Some (Some (Error ''No paths''), [])
   \<and> (\<exists>e. execute (samplePlatform noOperationIdDocument) sampleArgs [] = Some (Some e, [])
          \<and> (e = Error ''Operation is an array'' \<or> e = Error ''Operation is a string''
               \<or> e = Error ''No operationId'' \<or> e = TypeError))"
proof -
  let ?pf = "samplePlatform noOperationIdDocument"
  let ?pf2 = "samplePlatform (JObj [(''openapi'', JStr ''3.0.0'')])"
  have 1: "execute ?pf [''--input'', ''api.json'', ''--output''] []
     = Some (Some (Error ''Invalid number of arguments''), [])"
    using fatal_conditions_abort[of "[''--input'', ''api.json'', ''--output'']" ?pf "[]"]
    by simp
  have d2: "pf_dereference ?pf2 (pf_resolve ?pf2 ''api.json'') [] = Inr (JObj [(''openapi'', JStr ''3.0.0'')])"
    by (simp add: samplePlatform_def)
  have 2: "execute ?pf2 sampleArgs [] = Some (Some (Error ''No paths''), [])"
    using fatal_conditions_abort[of sampleArgs ?pf2 "[]" sampleOptions "''api.json''" "''sdk.ts''"
            "JObj [(''openapi'', JStr ''3.0.0'')]"]
          sampleArgs_options d2
    by (simp add: sampleOptions_def truthy_def getProp_def)
  have d3: "pf_dereference ?pf (pf_resolve ?pf ''api.json'') [] = Inr noOperationIdDocument"
    by (simp add: samplePlatform_def)
  have p3: "getProp noOperationIdDocument ''paths''
            = JObj [(''/items'', JObj [(''get'', JObj [(''responses'', JObj [])])])]"
    by (simp add: noOperationIdDocument_def getProp_def)
  have 3: "\<exists>e. execute ?pf sampleArgs [] = Some (Some e, [])
          \<and> (e = Error ''Operation is an array'' \<or> e = Error ''Operation is a string''
               \<or> e = Error ''No operationId'' \<or> e = TypeError)"
    using fatal_conditions_abort[of sampleArgs ?pf "[]" sampleOptions "''api.json''" "''sdk.ts''"
            noOperationIdDocument "''/items''" "''get''"]
          sampleArgs_options d3
    unfolding p3
    by (simp add: sampleOptions_def truthy_def getProp_def hasProp_def noOperationIdDocument_def)
  from 1 2 3 show ?thesis by blast
qed









end
